theory Spec2Isabelle
  imports Complex_Main "HOL-Library.Sublist" "HOL-Library.AList"
begin

section \<open>Python values, errors and events\<close>

text \<open>
  The quantizer of \<^verbatim>\<open>nemo/collections/llm/quantization/quantizer.py\<close> is a thin
  layer over external toolkits. Exceptions are values of type \<open>error\<close>; every call into a
  collaborator (logging, the optimisation toolkit, the export toolkit, the distributed
  runtime, \<^verbatim>\<open>shutil\<close>) is recorded as an \<open>event\<close>, in program order.
\<close>

datatype error =
    RuntimeError string
  | EnvironmentError string
  | AssertionError string
  | AttributeError
  | KeyError
  | IndexError
  | TypeError
  | ValueError
  | ZeroDivisionError
  | ImportError string

datatype pykey = KInt int | KStr string

text \<open>
  A recipe is a nested Python structure. Dictionaries keep insertion order, and a key is
  an integer or a string (the block-size dictionaries of the toolkit use the key \<open>-1\<close>).
\<close>

datatype pyval =
    VNone
  | VBool bool
  | VInt int
  | VFloat real
  | VStr string
  | VTuple "pyval list"
  | VList "pyval list"
  | VDict "(pykey \<times> pyval) list"

datatype torch_dtype = TorchDtype string

datatype dtype = DInt int | DStr string

datatype event =
    LogInfo string
  | LogInfoAlpha real
  | LogWarning string
  | MtqQuantize pyval
  | PostprocessAmax string real
  | PrintQuantSummary
  | ExportCheckpoint string torch_dtype string int int bool
  | Barrier
  | CopyTree string string

text \<open>Python's \<^verbatim>\<open>sub in s\<close> on strings.\<close>

fun str_contains :: "string \<Rightarrow> string \<Rightarrow> bool" where
  "str_contains sub [] = (sub = [])"
| "str_contains sub (c # cs) = (prefix sub (c # cs) \<or> str_contains sub cs)"

section \<open>Decoder-type resolver\<close>

text \<open>
  The configuration classes of \<^verbatim>\<open>nemo.collections.llm\<close> are not part of the sources at
  hand. A configuration object is represented by the classes it is an instance of (its
  own class and all its bases); \<open>OtherConfig\<close> stands for any class outside the mapping,
  such as \<^verbatim>\<open>GPTConfig\<close> itself.
\<close>

datatype config_class =
    Baichuan2Config
  | ChatGLMConfig
  | GemmaConfig
  | LlamaConfig
  | MistralConfig7B
  | MixtralConfig
  | NemotronConfig
  | Qwen2Config
  | Starcoder2Config
  | OtherConfig string

record gpt_config =
  classes :: "config_class list"
  vocab_size :: "int option"
  pipeline_dtype :: "torch_dtype option"
  pipeline_model_parallel_size :: int

definition isinstance :: "'a gpt_config_scheme \<Rightarrow> config_class \<Rightarrow> bool" where
  "isinstance config config_class = (config_class \<in> set (classes config))"

definition mapping :: "(config_class \<times> string) list" where
  "mapping =
    [(Baichuan2Config, ''baichuan''),
     (ChatGLMConfig, ''chatglm''),
     (GemmaConfig, ''gemma''),
     (LlamaConfig, ''llama''),
     (MistralConfig7B, ''llama''),
     (MixtralConfig, ''llama''),
     (NemotronConfig, ''gptnext''),
     (Qwen2Config, ''qwen''),
     (Starcoder2Config, ''gptnext'')]"

text \<open>The \<^verbatim>\<open>for\<close> loop over the mapping: the first matching pair returns.\<close>

fun first_match :: "'a gpt_config_scheme \<Rightarrow> (config_class \<times> string) list \<Rightarrow> string option" where
  "first_match config [] = None"
| "first_match config ((config_class, decoder_type) # rest) =
     (if isinstance config config_class then Some decoder_type else first_match config rest)"

definition get_modelopt_decoder_type :: "'a gpt_config_scheme \<Rightarrow> string \<times> event list" where
  "get_modelopt_decoder_type config =
     (case first_match config mapping of
        Some decoder_type \<Rightarrow> (decoder_type, [])
      | None \<Rightarrow> (''llama'', [LogWarning ''Could not directly infer the decoder type'']))"

section \<open>Operations on Python values\<close>

text \<open>Indexing a sequence of length \<open>n\<close>: a negative index counts from the end.\<close>

definition py_index :: "'a list \<Rightarrow> int \<Rightarrow> error + nat" where
  "py_index xs i =
     (let n = int (length xs); j = (if i < 0 then n + i else i)
      in if 0 \<le> j \<and> j < n then Inr (nat j) else Inl IndexError)"

text \<open>\<^verbatim>\<open>obj[k]\<close>.\<close>

fun py_getitem :: "pyval \<Rightarrow> pykey \<Rightarrow> error + pyval" where
  "py_getitem (VDict d) k = (case map_of d k of None \<Rightarrow> Inl KeyError | Some v \<Rightarrow> Inr v)"
| "py_getitem (VList xs) (KInt i) =
     (case py_index xs i of Inl e \<Rightarrow> Inl e | Inr j \<Rightarrow> Inr (xs ! j))"
| "py_getitem (VTuple xs) (KInt i) =
     (case py_index xs i of Inl e \<Rightarrow> Inl e | Inr j \<Rightarrow> Inr (xs ! j))"
| "py_getitem (VStr s) (KInt i) =
     (case py_index s i of Inl e \<Rightarrow> Inl e | Inr j \<Rightarrow> Inr (VStr [s ! j]))"
| "py_getitem v k = Inl TypeError"

text \<open>
  \<^verbatim>\<open>obj[k] = v\<close>, returning the object after the assignment. A dictionary keeps the
  position of a key it already has and appends a new one.
\<close>

fun py_setitem :: "pyval \<Rightarrow> pykey \<Rightarrow> pyval \<Rightarrow> error + pyval" where
  "py_setitem (VDict d) k v = Inr (VDict (AList.update k v d))"
| "py_setitem (VList xs) (KInt i) v =
     (case py_index xs i of Inl e \<Rightarrow> Inl e | Inr j \<Rightarrow> Inr (VList (xs[j := v])))"
| "py_setitem obj k v = Inl TypeError"

text \<open>
  Objects are modelled as trees, so an assignment inside an object that was reached through
  \<^verbatim>\<open>parent[k]\<close> is written back into the parent: \<open>put_child parent k child\<close> is the
  parent once the object in its slot \<open>k\<close> has been mutated to \<open>child\<close>. It is only used
  after \<open>py_getitem parent k\<close> has succeeded. This is Python's behaviour as long as the
  mutated objects of a recipe are not shared with another recipe.
\<close>

fun put_child :: "pyval \<Rightarrow> pykey \<Rightarrow> pyval \<Rightarrow> pyval" where
  "put_child (VDict d) k c = VDict (AList.update k c d)"
| "put_child (VList xs) (KInt i) c =
     (case py_index xs i of Inl e \<Rightarrow> VList xs | Inr j \<Rightarrow> VList (xs[j := c]))"
| "put_child (VTuple xs) (KInt i) c =
     (case py_index xs i of Inl e \<Rightarrow> VTuple xs | Inr j \<Rightarrow> VTuple (xs[j := c]))"
| "put_child obj k c = obj"

text \<open>Reading along a path of keys: \<^verbatim>\<open>obj[k1][k2]...\<close>.\<close>

fun get_path :: "pyval \<Rightarrow> pykey list \<Rightarrow> error + pyval" where
  "get_path v [] = Inr v"
| "get_path v (k # ks) = (case py_getitem v k of Inl e \<Rightarrow> Inl e | Inr c \<Rightarrow> get_path c ks)"

text \<open>\<^verbatim>\<open>xs[lo:hi]\<close> with integer bounds; \<^verbatim>\<open>xs[:hi]\<close> is \<open>py_slice xs 0 hi\<close>.\<close>

definition py_slice :: "'a list \<Rightarrow> int \<Rightarrow> int \<Rightarrow> 'a list" where
  "py_slice xs lo hi =
     (let n = int (length xs);
          l = (if lo < 0 then max (n + lo) 0 else min lo n);
          h = (if hi < 0 then max (n + hi) 0 else min hi n)
      in take (nat (h - l)) (drop (nat l) xs))"

text \<open>\<^verbatim>\<open>os.path.join\<close> on POSIX paths, for two components.\<close>

definition os_path_join :: "string \<Rightarrow> string \<Rightarrow> string" where
  "os_path_join a b =
     (if b \<noteq> [] \<and> hd b = CHR ''/'' then b
      else if a = [] \<or> last a = CHR ''/'' then a @ b
      else a @ ''/'' @ b)"

section \<open>The recipe table\<close>

text \<open>
  The six recipe templates belong to the optimisation toolkit and are parameters of the
  model. \<open>QUANT_CFG_CHOICES\<close> is the module-level dictionary built from them; it is global
  mutable state, so the functions below take the current table and return the new one.
\<close>

record mtq =
  INT8_DEFAULT_CFG :: pyval
  INT8_SMOOTHQUANT_CFG :: pyval
  FP8_DEFAULT_CFG :: pyval
  INT4_AWQ_CFG :: pyval
  W4A8_AWQ_BETA_CFG :: pyval
  INT4_BLOCKWISE_WEIGHT_ONLY_CFG :: pyval

type_synonym cfg_table = "string \<rightharpoonup> pyval"

definition QUANT_CFG_CHOICES :: "mtq \<Rightarrow> cfg_table" where
  "QUANT_CFG_CHOICES m =
     [''int8'' \<mapsto> INT8_DEFAULT_CFG m,
      ''int8_sq'' \<mapsto> INT8_SMOOTHQUANT_CFG m,
      ''fp8'' \<mapsto> FP8_DEFAULT_CFG m,
      ''int4_awq'' \<mapsto> INT4_AWQ_CFG m,
      ''w4a8_awq'' \<mapsto> W4A8_AWQ_BETA_CFG m,
      ''int4'' \<mapsto> INT4_BLOCKWISE_WEIGHT_ONLY_CFG m]"

definition SUPPORTED_DTYPE :: "dtype list" where
  "SUPPORTED_DTYPE = [DInt 16, DStr ''16'', DStr ''bf16'']"

section \<open>Configurations, the model handle and the quantizer\<close>

text \<open>
  \<open>enable_kv_cache\<close> is annotated \<^verbatim>\<open>bool\<close> with default \<^verbatim>\<open>True\<close>, and \<^verbatim>\<open>quantize\<close>
  tests it against \<^verbatim>\<open>None\<close>: the field holds \<open>None\<close> or a boolean.
\<close>

record QuantizationConfig =
  algorithm :: "string option"
  awq_block_size :: int
  sq_alpha :: real
  enable_kv_cache :: "bool option"

definition default_QuantizationConfig :: QuantizationConfig where
  "default_QuantizationConfig =
     \<lparr>algorithm = Some ''fp8'', awq_block_size = 128, sq_alpha = 0.5,
      enable_kv_cache = Some True\<rparr>"

record ExportConfig =
  path :: string
  dtype :: dtype
  decoder_type :: "string option"
  inference_tensor_parallel :: int
  inference_pipeline_parallel :: int

text \<open>
  Modelled from the spec: \<^verbatim>\<open>get_unwrapped_mcore_model\<close> (module \<^verbatim>\<open>.utils\<close>) is missing
  from the sources; the spec has it return, "given the wrapped model, the bare
  architecture-specific module the quantization/export toolkits operate on". The bare
  module is a component of the wrapped model, with a configuration of its own.
\<close>

record mcore_model =
  mconfig :: gpt_config

record gpt_model =
  config :: gpt_config
  tokenizer_vocab_size :: int
  frozen :: bool
  num_nodes :: int
  module :: mcore_model

definition get_unwrapped_mcore_model :: "gpt_model \<Rightarrow> mcore_model" where
  "get_unwrapped_mcore_model model = module model"

record Quantizer =
  quantization_config :: QuantizationConfig
  export_config :: "ExportConfig option"
  nemo_checkpoint_path :: "string option"
  torch_dtype :: torch_dtype

section \<open>Quantizer construction\<close>

text \<open>
  \<^verbatim>\<open>Quantizer.__init__\<close>. \<open>HAVE_MODELOPT\<close> and \<open>cuda_is_available\<close> are the two
  environment flags; \<open>torch_dtype_from_precision\<close> is a utility outside the sources at
  hand and is a parameter. Reading \<^verbatim>\<open>export_config.dtype\<close> fails on \<^verbatim>\<open>None\<close> before
  the assertions are reached. The message of the dtype assertion is kept without the
  formatted value.
\<close>

definition init ::
  "bool \<Rightarrow> bool \<Rightarrow> (dtype \<Rightarrow> error + torch_dtype) \<Rightarrow> cfg_table \<Rightarrow>
   QuantizationConfig \<Rightarrow> ExportConfig option \<Rightarrow> error + Quantizer" where
  "init HAVE_MODELOPT cuda_is_available torch_dtype_from_precision table qcfg ecfg =
     (if \<not> HAVE_MODELOPT then Inl (RuntimeError ''nvidia-modelopt is needed to use Quantizer'')
      else if \<not> cuda_is_available then
        Inl (EnvironmentError ''GPU is required for the quantization.'')
      else case ecfg of
        None \<Rightarrow> Inl AttributeError
      | Some ec \<Rightarrow>
          (case algorithm qcfg of
             Some a \<Rightarrow>
               if a \<notin> dom table then
                 Inl (AssertionError (''Unsupported quantization algorithm: '' @ a))
               else if dtype ec \<notin> set SUPPORTED_DTYPE then
                 Inl (AssertionError ''Unsupported export dtype'')
               else (case torch_dtype_from_precision (dtype ec) of
                       Inl e \<Rightarrow> Inl e
                     | Inr td \<Rightarrow>
                         Inr \<lparr>quantization_config = qcfg, export_config = Some ec,
                              nemo_checkpoint_path = None, torch_dtype = td\<rparr>)
           | None \<Rightarrow>
               if dtype ec \<notin> set SUPPORTED_DTYPE then
                 Inl (AssertionError ''Unsupported export dtype'')
               else (case torch_dtype_from_precision (dtype ec) of
                       Inl e \<Rightarrow> Inl e
                     | Inr td \<Rightarrow>
                         Inr \<lparr>quantization_config = qcfg, export_config = Some ec,
                              nemo_checkpoint_path = None, torch_dtype = td\<rparr>)))"

section \<open>Quantize\<close>

text \<open>\<^verbatim>\<open>Quantizer._setup\<close>.\<close>

definition setup_model :: "Quantizer \<Rightarrow> gpt_model \<Rightarrow> gpt_model" where
  "setup_model self model =
     model\<lparr>config := (config model)\<lparr>vocab_size := Some (tokenizer_vocab_size model),
                                     pipeline_dtype := Some (torch_dtype self)\<rparr>,
           frozen := True\<rparr>"

text \<open>
  \<^verbatim>\<open>Quantizer._get_decoder_type\<close>: \<^verbatim>\<open>self.export_config.decoder_type or
  get_modelopt_decoder_type(config)\<close>. An empty override is falsy, like \<^verbatim>\<open>None\<close>.
\<close>

definition get_decoder_type :: "Quantizer \<Rightarrow> gpt_config \<Rightarrow> error + (string \<times> event list)" where
  "get_decoder_type self cfg =
     (case export_config self of
        None \<Rightarrow> Inl AttributeError
      | Some ec \<Rightarrow>
          (case decoder_type ec of
             None \<Rightarrow> Inr (get_modelopt_decoder_type cfg)
           | Some d \<Rightarrow> if d = [] then Inr (get_modelopt_decoder_type cfg) else Inr (d, [])))"

text \<open>
  Lines 159 to 162, on the object \<^verbatim>\<open>quant_cfg\<close> refers to:
  \<^verbatim>\<open>weight_quantizer["block_sizes"][-1] = awq_block_size\<close>.
\<close>

definition set_block_size :: "pyval \<Rightarrow> int \<Rightarrow> error + pyval" where
  "set_block_size weight_quantizer bs =
     (case py_getitem weight_quantizer (KStr ''block_sizes'') of
        Inl e \<Rightarrow> Inl e
      | Inr block_sizes \<Rightarrow>
          (case py_setitem block_sizes (KInt (- 1)) (VInt bs) of
             Inl e \<Rightarrow> Inl e
           | Inr block_sizes' \<Rightarrow>
               Inr (put_child weight_quantizer (KStr ''block_sizes'') block_sizes')))"

definition awq_step :: "pyval \<Rightarrow> int \<Rightarrow> error + pyval" where
  "awq_step quant_cfg bs =
     (case py_getitem quant_cfg (KStr ''quant_cfg'') of
        Inl e \<Rightarrow> Inl e
      | Inr inner \<Rightarrow>
          (case py_getitem inner (KStr ''*weight_quantizer'') of
             Inl e \<Rightarrow> Inl e
           | Inr (VList ws) \<Rightarrow>
               (case py_getitem (VList ws) (KInt 0) of
                  Inl e \<Rightarrow> Inl e
                | Inr w0 \<Rightarrow>
                    (case set_block_size w0 bs of
                       Inl e \<Rightarrow> Inl e
                     | Inr w0' \<Rightarrow>
                         Inr (put_child quant_cfg (KStr ''quant_cfg'')
                               (put_child inner (KStr ''*weight_quantizer'')
                                 (put_child (VList ws) (KInt 0) w0')))))
           | Inr w \<Rightarrow>
               (case set_block_size w bs of
                  Inl e \<Rightarrow> Inl e
                | Inr w' \<Rightarrow>
                    Inr (put_child quant_cfg (KStr ''quant_cfg'')
                          (put_child inner (KStr ''*weight_quantizer'') w')))))"

text \<open>Lines 171 to 175: the dictionary stored under \<^verbatim>\<open>"*output_quantizer"\<close>.\<close>

definition output_quantizer :: "string \<Rightarrow> bool \<Rightarrow> pyval" where
  "output_quantizer alg enable_quant_kv_cache =
     VDict [(KStr ''num_bits'', if alg = ''int8_sq'' then VInt 8 else VTuple [VInt 4, VInt 3]),
            (KStr ''axis'', VNone),
            (KStr ''enable'', VBool enable_quant_kv_cache)]"

definition set_output_quantizer :: "pyval \<Rightarrow> string \<Rightarrow> bool \<Rightarrow> error + pyval" where
  "set_output_quantizer quant_cfg alg enable_quant_kv_cache =
     (case py_getitem quant_cfg (KStr ''quant_cfg'') of
        Inl e \<Rightarrow> Inl e
      | Inr inner \<Rightarrow>
          (case py_setitem inner (KStr ''*output_quantizer'')
                  (output_quantizer alg enable_quant_kv_cache) of
             Inl e \<Rightarrow> Inl e
           | Inr inner' \<Rightarrow> Inr (put_child quant_cfg (KStr ''quant_cfg'') inner')))"

text \<open>Lines 176 to 179.\<close>

definition set_smoothquant :: "pyval \<Rightarrow> real \<Rightarrow> error + pyval" where
  "set_smoothquant quant_cfg alpha =
     py_setitem quant_cfg (KStr ''algorithm'')
       (VDict [(KStr ''method'', VStr ''smoothquant''), (KStr ''alpha'', VFloat alpha)])"

text \<open>Lines 167 to 169.\<close>

definition kv_cache_enabled :: "bool option \<Rightarrow> string \<Rightarrow> string \<Rightarrow> bool" where
  "kv_cache_enabled enable alg dec =
     (case enable of
        None \<Rightarrow> \<not> str_contains ''int8'' alg \<and> dec \<noteq> ''gptnext''
      | Some b \<Rightarrow> b)"

text \<open>The \<^verbatim>\<open>match\<close> statement of lines 186 to 192.\<close>

definition maxbound :: "string \<Rightarrow> int" where
  "maxbound alg = (if alg = ''fp8'' then 448 else if alg = ''int8_sq'' then 127 else 0)"

text \<open>
  The clamp handed to \<^verbatim>\<open>postprocess_amax\<close> is \<^verbatim>\<open>torch.clamp(amax, min=0.01 * maxbound)\<close>;
  it is represented by its minimum, the product taken in the reals. \<open>clamp_min\<close> is the
  clamp on one entry of the tensor.
\<close>

definition clamp_threshold :: "string \<Rightarrow> real" where
  "clamp_threshold alg = 0.01 * real_of_int (maxbound alg)"

definition clamp_min :: "real \<Rightarrow> real \<Rightarrow> real" where
  "clamp_min amax lo = max amax lo"

text \<open>
  The recipe construction of \<^verbatim>\<open>quantize\<close>, lines 157 to 179. \<^verbatim>\<open>quant_cfg =
  QUANT_CFG_CHOICES[algorithm]\<close> binds the object stored in the table, not a copy of it:
  every assignment through \<^verbatim>\<open>quant_cfg\<close> is an assignment to the table's entry. The
  function returns the object \<^verbatim>\<open>quant_cfg\<close> refers to after these assignments, and the
  table, whose entry for the algorithm is that object.
\<close>

definition build_recipe ::
  "QuantizationConfig \<Rightarrow> cfg_table \<Rightarrow> string \<Rightarrow> string \<Rightarrow> error + (pyval \<times> cfg_table)" where
  "build_recipe qcfg table alg dec =
     (case table alg of
        None \<Rightarrow> Inl KeyError
      | Some quant_cfg \<Rightarrow>
          (case (if str_contains ''awq'' alg then awq_step quant_cfg (awq_block_size qcfg)
                 else Inr quant_cfg) of
             Inl e \<Rightarrow> Inl e
           | Inr quant_cfg1 \<Rightarrow>
               (case set_output_quantizer quant_cfg1 alg
                       (kv_cache_enabled (enable_kv_cache qcfg) alg dec) of
                  Inl e \<Rightarrow> Inl e
                | Inr quant_cfg2 \<Rightarrow>
                    (case (if alg = ''int8_sq'' then set_smoothquant quant_cfg2 (sq_alpha qcfg)
                           else Inr quant_cfg2) of
                       Inl e \<Rightarrow> Inl e
                     | Inr quant_cfg3 \<Rightarrow> Inr (quant_cfg3, table(alg \<mapsto> quant_cfg3))))))"

text \<open>
  \<^verbatim>\<open>Quantizer.quantize\<close>. \<open>rank\<close> is the value of \<^verbatim>\<open>dist.get_rank()\<close>. The result is the
  model handle returned, the recipe table afterwards and the events in program order.
\<close>

definition quantize ::
  "Quantizer \<Rightarrow> cfg_table \<Rightarrow> int \<Rightarrow> gpt_model \<Rightarrow> error + (gpt_model \<times> cfg_table \<times> event list)" where
  "quantize self table rank model =
     (case algorithm (quantization_config self) of
        None \<Rightarrow>
          Inr (model, table,
               [LogInfo ''Quantization algorithm set to None, returning the non-quantized model''])
      | Some alg \<Rightarrow>
          (let model1 = setup_model self model in
           case get_decoder_type self (mconfig (get_unwrapped_mcore_model model1)) of
             Inl e \<Rightarrow> Inl e
           | Inr (dec, warnings) \<Rightarrow>
               (case build_recipe (quantization_config self) table alg dec of
                  Inl e \<Rightarrow> Inl e
                | Inr (quant_cfg, table1) \<Rightarrow>
                         Inr (model1, table1,
                              [LogInfo (''Quantizing model to '' @ alg @ ''...'')]
                              @ warnings
                              @ [LogInfo ((if kv_cache_enabled
                                               (enable_kv_cache (quantization_config self)) alg dec
                                           then ''Enabled'' else ''Disabled'')
                                          @ '' KV cache quantization'')]
                              @ (if alg = ''int8_sq''
                                 then [LogInfoAlpha (sq_alpha (quantization_config self))] else [])
                              @ [MtqQuantize quant_cfg]
                              @ (if dec = ''gptnext''
                                 then [PostprocessAmax ''*input_quantizer'' (clamp_threshold alg)]
                                 else [])
                              @ (if rank = 0 then [PrintQuantSummary] else [])))))"

section \<open>Export\<close>

text \<open>
  \<^verbatim>\<open>Quantizer.export\<close>. \<open>rank\<close> is the value of \<^verbatim>\<open>dist.get_rank()\<close> and \<open>exists\<close>
  is \<^verbatim>\<open>os.path.exists\<close> on the file system as it is after the export call. The result is
  the quantizer (its \<open>nemo_checkpoint_path\<close> is assigned on rank 0) and the events in
  program order.
\<close>

definition tokenizer_src :: "string \<Rightarrow> string" where
  "tokenizer_src checkpoint = os_path_join (os_path_join checkpoint ''context'') ''nemo_tokenizer''"

definition tokenizer_dst :: "string \<Rightarrow> string" where
  "tokenizer_dst export_dir = os_path_join export_dir ''tokenizer''"

text \<open>
  \<^verbatim>\<open>nemo_checkpoint_path or self.nemo_checkpoint_path\<close> of line 262: an empty path is
  falsy, like \<^verbatim>\<open>None\<close>.
\<close>

definition path_or :: "string option \<Rightarrow> string option \<Rightarrow> string option" where
  "path_or a b = (case a of None \<Rightarrow> b | Some p \<Rightarrow> if p = [] then b else Some p)"

text \<open>Lines 263 to 270: the events of the tokenizer copy on rank 0.\<close>

definition copy_tokenizer :: "(string \<Rightarrow> bool) \<Rightarrow> string \<Rightarrow> string option \<Rightarrow> event list" where
  "copy_tokenizer exists export_dir checkpoint =
     (case checkpoint of
        None \<Rightarrow> []
      | Some p \<Rightarrow>
          if exists (tokenizer_src p) \<and> \<not> exists (tokenizer_dst export_dir)
          then [CopyTree (tokenizer_src p) (tokenizer_dst export_dir)]
          else [LogInfo ''Could not copy tokenizer from the NeMo checkpoint''])"

definition export_model ::
  "Quantizer \<Rightarrow> int \<Rightarrow> (string \<Rightarrow> bool) \<Rightarrow> gpt_model \<Rightarrow> string option \<Rightarrow>
   error + (Quantizer \<times> event list)" where
  "export_model self rank exists model checkpoint_arg =
     (case export_config self of
        None \<Rightarrow> Inl (AssertionError ''Export config is not set'')
      | Some ec \<Rightarrow>
          (let export_dir = path ec;
               use_nfs_workspace =
                 (num_nodes model > 1 \<or> pipeline_model_parallel_size (config model) > 1)
           in case get_decoder_type self (config model) of
                Inl e \<Rightarrow> Inl e
              | Inr (dec, warnings) \<Rightarrow>
                  (let events =
                         warnings
                         @ [ExportCheckpoint dec (torch_dtype self) export_dir
                              (inference_tensor_parallel ec) (inference_pipeline_parallel ec)
                              use_nfs_workspace,
                            Barrier,
                            LogInfo (''Export succeeded, model has been exported to '' @ export_dir
                                     @ ''. Saving tokenizer if possible...'')]
                   in if rank = 0 then
                        (let checkpoint = path_or checkpoint_arg (nemo_checkpoint_path self);
                             self1 = self\<lparr>nemo_checkpoint_path := checkpoint\<rparr>
                         in Inr (self1, events @ copy_tokenizer exists export_dir checkpoint))
                      else Inr (self, events))))"

section \<open>Calibration data iterator\<close>

text \<open>
  \<^verbatim>\<open>get_calib_data_iter\<close>. The corpus loader is a collaborator: \<open>dataset\<close> is the text
  column of the loaded split, one entry per row, so \<^verbatim>\<open>len(dataset)\<close> is its length and
  \<^verbatim>\<open>dataset[a:b][text_column]\<close> is a slice of it. A text is a list of code points of any
  type \<open>'c\<close>. The generator is represented by the list of the batches it yields; with
  \<^verbatim>\<open>batch_size\<close> zero the floor division raises.
\<close>

definition get_calib_data_iter ::
  "'c list list \<Rightarrow> int \<Rightarrow> int \<Rightarrow> int \<Rightarrow> error + 'c list list list" where
  "get_calib_data_iter dataset batch_size calib_size max_sequence_length =
     (let calib_size1 = max (min (int (length dataset)) calib_size) batch_size
      in if batch_size = 0 then Inl ZeroDivisionError
         else Inr (map (\<lambda>i. map (\<lambda>text. py_slice text 0 max_sequence_length)
                               (py_slice dataset (int i * batch_size) ((int i + 1) * batch_size)))
                       [0 ..< nat (calib_size1 div batch_size)]))"

text \<open>The effective sample count of line 287.\<close>

definition effective_calib_size :: "nat \<Rightarrow> int \<Rightarrow> int \<Rightarrow> int" where
  "effective_calib_size n batch_size calib_size = max (min (int n) calib_size) batch_size"

section \<open>Falcon layer specification\<close>

text \<open>
  \<^verbatim>\<open>get_falcon_layer_spec\<close> of \<^verbatim>\<open>falcon_spec.py\<close> builds a description out of classes
  and functions of megatron-core, which are referred to by name. An instance of a
  dataclass is its class name with the attributes set on it, in the order they were set;
  attributes left to the library's defaults are not recorded.
\<close>

datatype spec_val =
    Name string
  | EnumMember string string
  | Params "(string \<times> spec_val) list"
  | Instance string "(string \<times> spec_val) list"

fun setattr :: "spec_val \<Rightarrow> string \<Rightarrow> spec_val \<Rightarrow> spec_val" where
  "setattr (Instance c attrs) n v = Instance c (AList.update n v attrs)"
| "setattr obj n v = obj"

fun getattr :: "spec_val \<Rightarrow> string \<Rightarrow> spec_val option" where
  "getattr (Instance c attrs) n = map_of attrs n"
| "getattr (Params items) n = map_of items n"
| "getattr obj n = None"

fun getattr_path :: "spec_val \<Rightarrow> string list \<Rightarrow> spec_val option" where
  "getattr_path obj [] = Some obj"
| "getattr_path obj (n # ns) =
     (case getattr obj n of None \<Rightarrow> None | Some v \<Rightarrow> getattr_path v ns)"

text \<open>The constructor call of lines 49 to 72.\<close>

definition falcon_submodules :: spec_val where
  "falcon_submodules =
     Instance ''TransformerLayerSubmodules''
       [(''input_layernorm'', Name ''TENorm''),
        (''self_attention'',
           Instance ''ModuleSpec''
             [(''module'', Name ''SelfAttention''),
              (''params'', Params [(''attn_mask_type'', EnumMember ''AttnMaskType'' ''causal'')]),
              (''submodules'',
                 Instance ''SelfAttentionSubmodules''
                   [(''linear_qkv'', Name ''TEColumnParallelLinear''),
                    (''core_attention'', Name ''TEDotProductAttention''),
                    (''linear_proj'', Name ''TERowParallelLinear''),
                    (''q_layernorm'', Name ''IdentityOp''),
                    (''k_layernorm'', Name ''IdentityOp'')])]),
        (''self_attn_bda'', Name ''get_bias_dropout_add''),
        (''pre_mlp_layernorm'', Name ''TENorm''),
        (''mlp'',
           Instance ''ModuleSpec''
             [(''module'', Name ''MLP''),
              (''submodules'',
                 Instance ''MLPSubmodules''
                   [(''linear_fc1'', Name ''TEColumnParallelLinear''),
                    (''linear_fc2'', Name ''TERowParallelLinear'')])]),
        (''mlp_bda'', Name ''get_bias_dropout_add'')]"

definition get_falcon_layer_spec :: "bool \<Rightarrow> error + spec_val" where
  "get_falcon_layer_spec HAVE_MEGATRON_CORE =
     (if \<not> HAVE_MEGATRON_CORE then
        Inl (ImportError (''megatron-core was not found. Please see the NeMo README for ''
               @ ''installation instructions: https://github.com/NVIDIA/NeMo#megatron-gpt.''))
      else Inr (Instance ''ModuleSpec''
                  [(''module'', Name ''FalconTransformerLayer''),
                   (''submodules'',
                      setattr falcon_submodules ''post_self_attn_layernorm'' (Name ''TENorm''))]))"

section \<open>Reading a recipe and a trace\<close>

text \<open>
  The last block-size entry of the weight quantizer, selected as \<^verbatim>\<open>quantize\<close> selects
  it: the first element when the entry is a list.
\<close>

definition awq_block_size_entry :: "pyval \<Rightarrow> error + pyval" where
  "awq_block_size_entry recipe =
     (case get_path recipe [KStr ''quant_cfg'', KStr ''*weight_quantizer''] of
        Inl e \<Rightarrow> Inl e
      | Inr (VList ws) \<Rightarrow> get_path (VList ws) [KInt 0, KStr ''block_sizes'', KInt (- 1)]
      | Inr w \<Rightarrow> get_path w [KStr ''block_sizes'', KInt (- 1)])"

text \<open>
  The weight quantizer \<^verbatim>\<open>quantize\<close> assigns into: the entry itself, or its first element
  when the entry is a list.
\<close>

definition selected_weight_quantizer :: "pyval \<Rightarrow> error + pyval" where
  "selected_weight_quantizer recipe =
     (case get_path recipe [KStr ''quant_cfg'', KStr ''*weight_quantizer''] of
        Inl e \<Rightarrow> Inl e
      | Inr (VList ws) \<Rightarrow> py_getitem (VList ws) (KInt 0)
      | Inr w \<Rightarrow> Inr w)"

text \<open>
  \<open>block_size_assigned bs before after\<close>: the weight-quantizer entry of \<open>after\<close> is the
  one of \<open>before\<close> once \<^verbatim>\<open>block_sizes[-1] = bs\<close> has been assigned in its selected weight
  quantizer; nothing else of the entry differs.
\<close>

definition block_size_assigned :: "int \<Rightarrow> pyval \<Rightarrow> pyval \<Rightarrow> bool" where
  "block_size_assigned bs before after =
     (\<exists>w b b' w'.
        selected_weight_quantizer before = Inr w
        \<and> py_getitem w (KStr ''block_sizes'') = Inr b
        \<and> py_setitem b (KInt (- 1)) (VInt bs) = Inr b'
        \<and> py_setitem w (KStr ''block_sizes'') b' = Inr w'
        \<and> selected_weight_quantizer after = Inr w'
        \<and> (case get_path before [KStr ''quant_cfg'', KStr ''*weight_quantizer''] of
              Inr (VList ws) \<Rightarrow>
                get_path after [KStr ''quant_cfg'', KStr ''*weight_quantizer'']
                  = Inr (VList (w' # tl ws))
            | other \<Rightarrow>
                get_path after [KStr ''quant_cfg'', KStr ''*weight_quantizer''] = Inr w'))"

text \<open>
  \<open>assigned_in_place alg qcfg dec before after\<close>: the object \<open>after\<close> is the object
  \<open>before\<close> once the assignments of lines 158 to 179 have been made in it for the
  algorithm \<open>alg\<close>, the configuration \<open>qcfg\<close> and the decoder type \<open>dec\<close>. Every key
  that is not assigned reads as before; the output quantizer is the dictionary of this
  call; the \<^verbatim>\<open>"algorithm"\<close> key is reassigned for \<^verbatim>\<open>int8_sq\<close> only; the weight
  quantizer is touched for an \<^verbatim>\<open>awq\<close> algorithm only, and then in its last block size.
\<close>

definition assigned_in_place ::
  "string \<Rightarrow> QuantizationConfig \<Rightarrow> string \<Rightarrow> pyval \<Rightarrow> pyval \<Rightarrow> bool" where
  "assigned_in_place alg qcfg dec before after =
     ((\<forall>k. k \<noteq> KStr ''quant_cfg'' \<and> k \<noteq> KStr ''algorithm'' \<longrightarrow>
           py_getitem after k = py_getitem before k)
      \<and> (if alg = ''int8_sq''
          then py_getitem after (KStr ''algorithm'')
                 = Inr (VDict [(KStr ''method'', VStr ''smoothquant''),
                               (KStr ''alpha'', VFloat (sq_alpha qcfg))])
          else py_getitem after (KStr ''algorithm'') = py_getitem before (KStr ''algorithm''))
      \<and> (\<forall>k ks. k \<noteq> KStr ''*output_quantizer'' \<and> k \<noteq> KStr ''*weight_quantizer'' \<longrightarrow>
           get_path after (KStr ''quant_cfg'' # k # ks)
             = get_path before (KStr ''quant_cfg'' # k # ks))
      \<and> get_path after [KStr ''quant_cfg'', KStr ''*output_quantizer'']
           = Inr (VDict [(KStr ''num_bits'',
                            if alg = ''int8_sq'' then VInt 8 else VTuple [VInt 4, VInt 3]),
                         (KStr ''axis'', VNone),
                         (KStr ''enable'',
                            VBool (case enable_kv_cache qcfg of
                                     None \<Rightarrow> \<not> sublist ''int8'' alg \<and> dec \<noteq> ''gptnext''
                                   | Some b \<Rightarrow> b))])
      \<and> (if sublist ''awq'' alg
          then block_size_assigned (awq_block_size qcfg) before after
          else get_path after [KStr ''quant_cfg'', KStr ''*weight_quantizer'']
                 = get_path before [KStr ''quant_cfg'', KStr ''*weight_quantizer'']))"

text \<open>
  What \<^verbatim>\<open>quantize\<close> needs of a template: a dictionary under \<^verbatim>\<open>"quant_cfg"\<close> and, for
  an algorithm with \<^verbatim>\<open>awq\<close> in its name, a weight quantizer (or a non-empty list of
  them) whose \<^verbatim>\<open>"block_sizes"\<close> is a dictionary or a non-empty list.
\<close>

definition block_sizes_ok :: "pyval \<Rightarrow> bool" where
  "block_sizes_ok w =
     (case py_getitem w (KStr ''block_sizes'') of
        Inr (VDict d) \<Rightarrow> True
      | Inr (VList xs) \<Rightarrow> xs \<noteq> []
      | _ \<Rightarrow> False)"

definition weight_quantizer_ok :: "pyval \<Rightarrow> bool" where
  "weight_quantizer_ok inner =
     (case py_getitem inner (KStr ''*weight_quantizer'') of
        Inr (VList ws) \<Rightarrow> (case ws of [] \<Rightarrow> False | w0 # rest \<Rightarrow> block_sizes_ok w0)
      | Inr w \<Rightarrow> block_sizes_ok w
      | Inl e \<Rightarrow> False)"

definition recipe_shape_ok :: "string \<Rightarrow> pyval \<Rightarrow> bool" where
  "recipe_shape_ok alg template =
     (case py_getitem template (KStr ''quant_cfg'') of
        Inr (VDict inner) \<Rightarrow> str_contains ''awq'' alg \<longrightarrow> weight_quantizer_ok (VDict inner)
      | _ \<Rightarrow> False)"

fun is_postprocess :: "event \<Rightarrow> bool" where
  "is_postprocess (PostprocessAmax pat lo) = True"
| "is_postprocess e = False"

fun is_copy :: "event \<Rightarrow> bool" where
  "is_copy (CopyTree src dst) = True"
| "is_copy e = False"

fun is_export_call :: "event \<Rightarrow> bool" where
  "is_export_call (ExportCheckpoint dec td dir tp pp nfs) = True"
| "is_export_call e = False"

text \<open>
  The entry of the recipe table under \<open>key\<close> once a call of \<^verbatim>\<open>quantize\<close> has
  returned.
\<close>

definition entry_after_quantize ::
  "Quantizer \<Rightarrow> cfg_table \<Rightarrow> int \<Rightarrow> gpt_model \<Rightarrow> string \<Rightarrow> pyval option" where
  "entry_after_quantize self table rank model key =
     (case quantize self table rank model of
        Inl e \<Rightarrow> None
      | Inr (model1, table1, events) \<Rightarrow> table1 key)"

section \<open>Sample inputs\<close>

text \<open>
  Templates of the shape the toolkit documents for its recipes, used to run the model on
  concrete inputs.
\<close>

definition disabled_quantizer_cfg :: "(pykey \<times> pyval) list" where
  "disabled_quantizer_cfg =
     [(KStr ''*lm_head*'', VDict [(KStr ''enable'', VBool False)]),
      (KStr ''default'', VDict [(KStr ''enable'', VBool False)])]"

definition sample_mtq :: mtq where
  "sample_mtq =
     \<lparr>INT8_DEFAULT_CFG =
        VDict [(KStr ''quant_cfg'',
                VDict ([(KStr ''*weight_quantizer'',
                           VDict [(KStr ''num_bits'', VInt 8), (KStr ''axis'', VInt 0)]),
                        (KStr ''*input_quantizer'',
                           VDict [(KStr ''num_bits'', VInt 8), (KStr ''axis'', VNone)])]
                       @ disabled_quantizer_cfg)),
               (KStr ''algorithm'', VStr ''max'')],
      INT8_SMOOTHQUANT_CFG =
        VDict [(KStr ''quant_cfg'',
                VDict ([(KStr ''*weight_quantizer'',
                           VDict [(KStr ''num_bits'', VInt 8), (KStr ''axis'', VInt 0)]),
                        (KStr ''*input_quantizer'',
                           VDict [(KStr ''num_bits'', VInt 8), (KStr ''axis'', VInt (- 1))])]
                       @ disabled_quantizer_cfg)),
               (KStr ''algorithm'', VStr ''smoothquant'')],
      FP8_DEFAULT_CFG =
        VDict [(KStr ''quant_cfg'',
                VDict ([(KStr ''*weight_quantizer'',
                           VDict [(KStr ''num_bits'', VTuple [VInt 4, VInt 3]),
                                  (KStr ''axis'', VNone)]),
                        (KStr ''*input_quantizer'',
                           VDict [(KStr ''num_bits'', VTuple [VInt 4, VInt 3]),
                                  (KStr ''axis'', VNone)])]
                       @ disabled_quantizer_cfg)),
               (KStr ''algorithm'', VStr ''max'')],
      INT4_AWQ_CFG =
        VDict [(KStr ''quant_cfg'',
                VDict ([(KStr ''*weight_quantizer'',
                           VDict [(KStr ''num_bits'', VInt 4),
                                  (KStr ''block_sizes'',
                                     VDict [(KInt (- 1), VInt 128), (KStr ''type'', VStr ''static'')]),
                                  (KStr ''enable'', VBool True)]),
                        (KStr ''*input_quantizer'', VDict [(KStr ''enable'', VBool False)])]
                       @ disabled_quantizer_cfg)),
               (KStr ''algorithm'',
                  VDict [(KStr ''method'', VStr ''awq_lite''), (KStr ''alpha_step'', VFloat 0.1)])],
      W4A8_AWQ_BETA_CFG =
        VDict [(KStr ''quant_cfg'',
                VDict ([(KStr ''*weight_quantizer'',
                           VList [VDict [(KStr ''num_bits'', VInt 4),
                                         (KStr ''block_sizes'',
                                            VDict [(KInt (- 1), VInt 128),
                                                   (KStr ''type'', VStr ''static'')]),
                                         (KStr ''enable'', VBool True)],
                                  VDict [(KStr ''num_bits'', VTuple [VInt 4, VInt 3]),
                                         (KStr ''axis'', VNone),
                                         (KStr ''enable'', VBool True)]]),
                        (KStr ''*input_quantizer'',
                           VDict [(KStr ''num_bits'', VTuple [VInt 4, VInt 3]),
                                  (KStr ''axis'', VNone),
                                  (KStr ''enable'', VBool True)])]
                       @ disabled_quantizer_cfg)),
               (KStr ''algorithm'', VStr ''awq_lite'')],
      INT4_BLOCKWISE_WEIGHT_ONLY_CFG =
        VDict [(KStr ''quant_cfg'',
                VDict ([(KStr ''*weight_quantizer'',
                           VDict [(KStr ''num_bits'', VInt 4),
                                  (KStr ''block_sizes'', VDict [(KInt (- 1), VInt 128)]),
                                  (KStr ''enable'', VBool True)]),
                        (KStr ''*input_quantizer'', VDict [(KStr ''enable'', VBool False)])]
                       @ disabled_quantizer_cfg)),
               (KStr ''algorithm'', VStr ''max'')]\<rparr>"

definition sample_export_config :: ExportConfig where
  "sample_export_config =
     \<lparr>path = ''/out'', dtype = DStr ''bf16'', decoder_type = None,
      inference_tensor_parallel = 1, inference_pipeline_parallel = 1\<rparr>"

definition sample_quantizer :: "QuantizationConfig \<Rightarrow> Quantizer" where
  "sample_quantizer qcfg =
     \<lparr>quantization_config = qcfg, export_config = Some sample_export_config,
      nemo_checkpoint_path = None, torch_dtype = TorchDtype ''torch.bfloat16''\<rparr>"

definition sample_config :: "config_class list \<Rightarrow> gpt_config" where
  "sample_config cs =
     \<lparr>classes = cs, vocab_size = None, pipeline_dtype = None, pipeline_model_parallel_size = 1\<rparr>"

definition sample_model :: "config_class list \<Rightarrow> gpt_model" where
  "sample_model cs =
     \<lparr>config = sample_config cs, tokenizer_vocab_size = 32000, frozen = False, num_nodes = 1,
      module = \<lparr>mconfig = sample_config cs\<rparr>\<rparr>"

section \<open>Properties of the decoder-type resolver\<close>

lemma str_contains_sublist: "str_contains sub s = sublist sub s"
  by (induction s) (simp_all add: sublist_Cons_right)

lemma first_match_none:
  "(\<forall>p \<in> set m. \<not> isinstance cfg (fst p)) \<Longrightarrow> first_match cfg m = None"
  by (induction m) auto

lemma first_match_first:
  "i < length m \<Longrightarrow> isinstance cfg (fst (m ! i)) \<Longrightarrow>
   (\<forall>j < i. \<not> isinstance cfg (fst (m ! j))) \<Longrightarrow>
   first_match cfg m = Some (snd (m ! i))"
proof (induction m arbitrary: i)
  case Nil
  then show ?case by simp
next
  case (Cons p m)
  obtain c d where p: "p = (c, d)" by (cases p)
  show ?case
  proof (cases i)
    case 0
    with Cons.prems p show ?thesis by simp
  next
    case (Suc k)
    from Cons.prems(3) Suc have nc: "\<not> isinstance cfg c"
      using p by (metis fst_conv nth_Cons_0 zero_less_Suc)
    have "\<forall>j < k. \<not> isinstance cfg (fst (m ! j))"
      using Cons.prems(3) Suc by (metis Suc_less_eq nth_Cons_Suc)
    with Cons.IH [of k] Cons.prems(1,2) Suc
    have "first_match cfg m = Some (snd (m ! k))" by simp
    with nc p Suc show ?thesis by simp
  qed
qed

text \<open>
  C4. For a descriptor matching a family of the ordered mapping the resolver returns the
  label of the first matching family and logs nothing; the labels are those documented
  (Baichuan2: baichuan, ChatGLM: chatglm, Gemma: gemma, Llama, Mistral7B and Mixtral: llama,
  Nemotron and Starcoder2: gptnext, Qwen2: qwen). For a descriptor matching no family it
  returns llama and its only effect is one warning.
\<close>

theorem decoder_type_resolver:
  "map snd mapping =
     [''baichuan'', ''chatglm'', ''gemma'', ''llama'', ''llama'', ''llama'',
      ''gptnext'', ''qwen'', ''gptnext'']
   \<and> map fst mapping =
     [Baichuan2Config, ChatGLMConfig, GemmaConfig, LlamaConfig, MistralConfig7B,
      MixtralConfig, NemotronConfig, Qwen2Config, Starcoder2Config]
   \<and> (\<forall>i < length mapping.
        isinstance cfg (fst (mapping ! i)) \<and>
        (\<forall>j < i. \<not> isinstance cfg (fst (mapping ! j))) \<longrightarrow>
        get_modelopt_decoder_type cfg = (snd (mapping ! i), []))
   \<and> ((\<forall>p \<in> set mapping. \<not> isinstance cfg (fst p)) \<longrightarrow>
        get_modelopt_decoder_type cfg =
          (''llama'', [LogWarning ''Could not directly infer the decoder type'']))"
proof (intro conjI allI impI)
  show "map snd mapping =
     [''baichuan'', ''chatglm'', ''gemma'', ''llama'', ''llama'', ''llama'',
      ''gptnext'', ''qwen'', ''gptnext'']"
    by (simp add: mapping_def)
  show "map fst mapping =
     [Baichuan2Config, ChatGLMConfig, GemmaConfig, LlamaConfig, MistralConfig7B,
      MixtralConfig, NemotronConfig, Qwen2Config, Starcoder2Config]"
    by (simp add: mapping_def)
next
  fix i
  assume "i < length mapping"
    and "isinstance cfg (fst (mapping ! i)) \<and>
         (\<forall>j < i. \<not> isinstance cfg (fst (mapping ! j)))"
  then have "first_match cfg mapping = Some (snd (mapping ! i))"
    using first_match_first [of i mapping cfg] by blast
  then show "get_modelopt_decoder_type cfg = (snd (mapping ! i), [])"
    by (simp add: get_modelopt_decoder_type_def)
next
  assume "\<forall>p \<in> set mapping. \<not> isinstance cfg (fst p)"
  then have "first_match cfg mapping = None"
    by (rule first_match_none)
  then show "get_modelopt_decoder_type cfg =
      (''llama'', [LogWarning ''Could not directly infer the decoder type''])"
    by (simp add: get_modelopt_decoder_type_def)
qed

theorem decoder_type_resolver_witness:
  "get_modelopt_decoder_type
     \<lparr>classes = [OtherConfig ''Nemotron3Config8B'', NemotronConfig, OtherConfig ''GPTConfig''],
      vocab_size = None, pipeline_dtype = None, pipeline_model_parallel_size = 1\<rparr>
     = (''gptnext'', [])
   \<and> get_modelopt_decoder_type
     \<lparr>classes = [OtherConfig ''GPTConfig''],
      vocab_size = None, pipeline_dtype = None, pipeline_model_parallel_size = 1\<rparr>
     = (''llama'', [LogWarning ''Could not directly infer the decoder type''])"
proof -
  let ?n = "\<lparr>classes = [OtherConfig ''Nemotron3Config8B'', NemotronConfig, OtherConfig ''GPTConfig''],
      vocab_size = None, pipeline_dtype = None, pipeline_model_parallel_size = 1\<rparr>"
  let ?g = "\<lparr>classes = [OtherConfig ''GPTConfig''],
      vocab_size = None, pipeline_dtype = None, pipeline_model_parallel_size = 1\<rparr>"
  have len: "(6::nat) < length mapping"
    by (simp add: mapping_def)
  have hit: "isinstance ?n (fst (mapping ! 6)) \<and> (\<forall>j < 6. \<not> isinstance ?n (fst (mapping ! j)))"
    by (simp add: mapping_def isinstance_def eval_nat_numeral All_less_Suc)
  have miss: "\<forall>p \<in> set mapping. \<not> isinstance ?g (fst p)"
    by (simp add: mapping_def isinstance_def)
  from decoder_type_resolver [of ?n] len hit
  have "get_modelopt_decoder_type ?n = (snd (mapping ! 6), [])" by blast
  moreover have "snd (mapping ! 6) = ''gptnext''" by (simp add: mapping_def)
  moreover from decoder_type_resolver [of ?g] miss
  have "get_modelopt_decoder_type ?g =
      (''llama'', [LogWarning ''Could not directly infer the decoder type''])" by blast
  ultimately show ?thesis by simp
qed

section \<open>Properties of the calibration data iterator\<close>

lemma length_py_slice_prefix:
  "0 \<le> m \<Longrightarrow> int (length (py_slice xs 0 m)) \<le> m"
  by (simp add: py_slice_def Let_def)

lemma effective_calib_size_bounds:
  "b \<le> effective_calib_size n b c"
  "b \<le> int n \<Longrightarrow> effective_calib_size n b c \<le> int n"
  by (simp_all add: effective_calib_size_def)

text \<open>
  C3, as the code has it. With a positive batch size and a non-negative maximum sequence
  length the iterator yields exactly \<open>e div b\<close> batches, where the effective count
  \<open>e = max (min n c) b\<close> is at least one batch, and at most the corpus size whenever the
  corpus holds at least one batch; every text of every batch has at most \<open>m\<close> characters.
\<close>

theorem calib_iter_batches:
  assumes "0 < b" and "0 \<le> m"
  shows "\<exists>batches. get_calib_data_iter ds b c m = Inr batches
      \<and> int (length batches) = effective_calib_size (length ds) b c div b
      \<and> b \<le> effective_calib_size (length ds) b c
      \<and> (b \<le> int (length ds) \<longrightarrow> effective_calib_size (length ds) b c \<le> int (length ds))
      \<and> (\<forall>batch \<in> set batches. \<forall>text \<in> set batch. int (length text) \<le> m)"
proof -
  let ?e = "effective_calib_size (length ds) b c"
  let ?bs = "map (\<lambda>i. map (\<lambda>text. py_slice text 0 m)
                      (py_slice ds (int i * b) ((int i + 1) * b)))
                 [0 ..< nat (?e div b)]"
  from assms(1) have run: "get_calib_data_iter ds b c m = Inr ?bs"
    by (simp add: get_calib_data_iter_def effective_calib_size_def Let_def)
  have "b \<le> ?e" by (rule effective_calib_size_bounds)
  with assms(1) have "0 \<le> ?e div b"
    by (simp add: pos_imp_zdiv_nonneg_iff)
  then have len: "int (length ?bs) = ?e div b" by simp
  have texts: "\<forall>batch \<in> set ?bs. \<forall>text \<in> set batch. int (length text) \<le> m"
    using assms(2) by (auto simp: length_py_slice_prefix)
  from run len texts effective_calib_size_bounds [of b "length ds" c]
  show ?thesis by blast
qed

theorem calib_iter_batches_witness:
  "(0::int) < 2 \<and> (0::int) \<le> 3
   \<and> (\<exists>batches. get_calib_data_iter [''abcd'', ''ef'', ''ghi''] 2 3 3 = Inr batches
      \<and> int (length batches) = effective_calib_size (length [''abcd'', ''ef'', ''ghi'']) 2 3 div 2
      \<and> 2 \<le> effective_calib_size (length [''abcd'', ''ef'', ''ghi'']) 2 3
      \<and> (2 \<le> int (length [''abcd'', ''ef'', ''ghi'']) \<longrightarrow>
           effective_calib_size (length [''abcd'', ''ef'', ''ghi'']) 2 3
             \<le> int (length [''abcd'', ''ef'', ''ghi'']))
      \<and> (\<forall>batch \<in> set batches. \<forall>text \<in> set batch. int (length text) \<le> 3))"
proof -
  have b: "(0::int) < 2" and m: "(0::int) \<le> 3" by simp_all
  show ?thesis
    by (intro conjI b m calib_iter_batches [OF b m])
qed

text \<open>
  C3 as stated fails on two inputs. A corpus of one row with batch size 2 has the effective
  count 2, above the corpus size. A negative maximum sequence length drops characters from
  the end, and the text left is longer than the maximum.
\<close>

theorem calib_iter_counterexample:
  "get_calib_data_iter [''abc''] 2 1 5 = Inr [[''abc'']]
   \<and> effective_calib_size (length [''abc'']) 2 1 = 2
   \<and> \<not> effective_calib_size (length [''abc'']) 2 1 \<le> int (length [''abc''])
   \<and> get_calib_data_iter [''abc''] 1 1 (- 1) = Inr [[''ab'']]
   \<and> \<not> int (length ''ab'') \<le> - 1"
  by (simp add: get_calib_data_iter_def effective_calib_size_def py_slice_def Let_def)

section \<open>Properties of the construction\<close>

lemma dom_QUANT_CFG_CHOICES:
  "dom (QUANT_CFG_CHOICES m) = {''int8'', ''int8_sq'', ''fp8'', ''int4_awq'', ''w4a8_awq'', ''int4''}"
  by (auto simp: QUANT_CFG_CHOICES_def split: if_splits)

text \<open>
  C6. Construction raises a \<open>RuntimeError\<close> without the optimisation toolkit and an
  \<open>EnvironmentError\<close> without an accelerator; it raises when the algorithm is a string
  outside the six supported names and when the export dtype is outside 16, "16", "bf16"
  (an \<open>AssertionError\<close> once the environment checks pass); the algorithm \<open>None\<close> is
  accepted.
\<close>

theorem init_errors:
  "(\<not> have_modelopt \<longrightarrow>
      init have_modelopt cuda tdfp table qcfg ecfg =
        Inl (RuntimeError ''nvidia-modelopt is needed to use Quantizer''))
   \<and> (have_modelopt \<and> \<not> cuda \<longrightarrow>
      init have_modelopt cuda tdfp table qcfg ecfg =
        Inl (EnvironmentError ''GPU is required for the quantization.''))
   \<and> (algorithm qcfg = Some a \<and>
      a \<notin> {''int8'', ''int8_sq'', ''fp8'', ''int4_awq'', ''w4a8_awq'', ''int4''} \<longrightarrow>
      isl (init have_modelopt cuda tdfp (QUANT_CFG_CHOICES m) qcfg ecfg)
      \<and> (have_modelopt \<and> cuda \<and> ecfg \<noteq> None \<longrightarrow>
         init have_modelopt cuda tdfp (QUANT_CFG_CHOICES m) qcfg ecfg =
           Inl (AssertionError (''Unsupported quantization algorithm: '' @ a))))
   \<and> (ecfg = Some ec \<and> dtype ec \<notin> {DInt 16, DStr ''16'', DStr ''bf16''} \<longrightarrow>
      isl (init have_modelopt cuda tdfp (QUANT_CFG_CHOICES m) qcfg ecfg)
      \<and> (have_modelopt \<and> cuda \<and>
         (algorithm qcfg = None \<or>
          the (algorithm qcfg) \<in> {''int8'', ''int8_sq'', ''fp8'', ''int4_awq'', ''w4a8_awq'', ''int4''}) \<longrightarrow>
         init have_modelopt cuda tdfp (QUANT_CFG_CHOICES m) qcfg ecfg =
           Inl (AssertionError ''Unsupported export dtype'')))
   \<and> (have_modelopt \<and> cuda \<and> algorithm qcfg = None \<and> ecfg = Some ec \<and>
      dtype ec \<in> {DInt 16, DStr ''16'', DStr ''bf16''} \<and> tdfp (dtype ec) = Inr td \<longrightarrow>
      init have_modelopt cuda tdfp (QUANT_CFG_CHOICES m) qcfg ecfg =
        Inr \<lparr>quantization_config = qcfg, export_config = Some ec,
             nemo_checkpoint_path = None, torch_dtype = td\<rparr>)"
  by (cases "algorithm qcfg"; cases ecfg)
     (auto simp: init_def dom_QUANT_CFG_CHOICES SUPPORTED_DTYPE_def)

theorem init_errors_witness:
  "init False True (\<lambda>d. Inr (TorchDtype ''torch.bfloat16'')) Map.empty
      default_QuantizationConfig None
     = Inl (RuntimeError ''nvidia-modelopt is needed to use Quantizer'')
   \<and> init True False (\<lambda>d. Inr (TorchDtype ''torch.bfloat16'')) Map.empty
      default_QuantizationConfig None
     = Inl (EnvironmentError ''GPU is required for the quantization.'')
   \<and> init True True (\<lambda>d. Inr (TorchDtype ''torch.bfloat16''))
        (QUANT_CFG_CHOICES sample_mtq)
        (default_QuantizationConfig\<lparr>algorithm := Some ''int2''\<rparr>)
        (Some \<lparr>path = ''/out'', dtype = DStr ''bf16'', decoder_type = None,
               inference_tensor_parallel = 1, inference_pipeline_parallel = 1\<rparr>)
     = Inl (AssertionError ''Unsupported quantization algorithm: int2'')
   \<and> init True True (\<lambda>d. Inr (TorchDtype ''torch.bfloat16''))
        (QUANT_CFG_CHOICES sample_mtq)
        (default_QuantizationConfig\<lparr>algorithm := None\<rparr>)
        (Some \<lparr>path = ''/out'', dtype = DInt 32, decoder_type = None,
               inference_tensor_parallel = 1, inference_pipeline_parallel = 1\<rparr>)
     = Inl (AssertionError ''Unsupported export dtype'')
   \<and> init True True (\<lambda>d. Inr (TorchDtype ''torch.bfloat16''))
        (QUANT_CFG_CHOICES sample_mtq)
        (default_QuantizationConfig\<lparr>algorithm := None\<rparr>)
        (Some \<lparr>path = ''/out'', dtype = DStr ''bf16'', decoder_type = None,
               inference_tensor_parallel = 1, inference_pipeline_parallel = 1\<rparr>)
     = Inr \<lparr>quantization_config = default_QuantizationConfig\<lparr>algorithm := None\<rparr>,
            export_config = Some \<lparr>path = ''/out'', dtype = DStr ''bf16'', decoder_type = None,
               inference_tensor_parallel = 1, inference_pipeline_parallel = 1\<rparr>,
            nemo_checkpoint_path = None, torch_dtype = TorchDtype ''torch.bfloat16''\<rparr>"
proof -
  let ?td = "\<lambda>d::dtype. (Inr (TorchDtype ''torch.bfloat16'') :: error + torch_dtype)"
  let ?m = sample_mtq
  let ?ec = "\<lparr>path = ''/out'', dtype = DStr ''bf16'', decoder_type = None,
               inference_tensor_parallel = 1, inference_pipeline_parallel = 1\<rparr>"
  let ?ec32 = "\<lparr>path = ''/out'', dtype = DInt 32, decoder_type = None,
               inference_tensor_parallel = 1, inference_pipeline_parallel = 1\<rparr>"
  note a = init_errors [where have_modelopt = False and cuda = True and tdfp = ?td
             and table = Map.empty and qcfg = default_QuantizationConfig and ecfg = None]
  note b = init_errors [where have_modelopt = True and cuda = False and tdfp = ?td
             and table = Map.empty and qcfg = default_QuantizationConfig and ecfg = None]
  note c = init_errors [where have_modelopt = True and cuda = True and tdfp = ?td
             and m = ?m and qcfg = "default_QuantizationConfig\<lparr>algorithm := Some ''int2''\<rparr>"
             and ecfg = "Some ?ec" and a = "''int2''"]
  note d = init_errors [where have_modelopt = True and cuda = True and tdfp = ?td
             and m = ?m and qcfg = "default_QuantizationConfig\<lparr>algorithm := None\<rparr>"
             and ecfg = "Some ?ec32" and ec = ?ec32]
  note e = init_errors [where have_modelopt = True and cuda = True and tdfp = ?td
             and m = ?m and qcfg = "default_QuantizationConfig\<lparr>algorithm := None\<rparr>"
             and ecfg = "Some ?ec" and ec = ?ec and td = "TorchDtype ''torch.bfloat16''"]
  from a have 1: "init False True ?td Map.empty default_QuantizationConfig None
     = Inl (RuntimeError ''nvidia-modelopt is needed to use Quantizer'')" by simp
  from b have 2: "init True False ?td Map.empty default_QuantizationConfig None
     = Inl (EnvironmentError ''GPU is required for the quantization.'')" by simp
  from c have 3: "init True True ?td (QUANT_CFG_CHOICES ?m)
        (default_QuantizationConfig\<lparr>algorithm := Some ''int2''\<rparr>) (Some ?ec)
     = Inl (AssertionError ''Unsupported quantization algorithm: int2'')"
    by (simp add: default_QuantizationConfig_def)
  from d have 4: "init True True ?td (QUANT_CFG_CHOICES ?m)
        (default_QuantizationConfig\<lparr>algorithm := None\<rparr>) (Some ?ec32)
     = Inl (AssertionError ''Unsupported export dtype'')"
    by (simp add: default_QuantizationConfig_def)
  from e have 5: "init True True ?td (QUANT_CFG_CHOICES ?m)
        (default_QuantizationConfig\<lparr>algorithm := None\<rparr>) (Some ?ec)
     = Inr \<lparr>quantization_config = default_QuantizationConfig\<lparr>algorithm := None\<rparr>,
            export_config = Some ?ec,
            nemo_checkpoint_path = None, torch_dtype = TorchDtype ''torch.bfloat16''\<rparr>"
    by (simp add: default_QuantizationConfig_def)
  from 1 2 3 4 5 show ?thesis by blast
qed

section \<open>Properties of the recipe construction\<close>

lemma getitem_str_key:
  "py_getitem obj (KStr s) = Inr x \<Longrightarrow> \<exists>d. obj = VDict d \<and> map_of d (KStr s) = Some x"
  by (cases obj) (auto split: option.splits)

lemma setitem_str_key:
  "py_setitem obj (KStr s) v = Inr obj' \<Longrightarrow>
   \<exists>d. obj = VDict d \<and> obj' = VDict (AList.update (KStr s) v d)"
  by (cases obj) auto

lemma getitem_update:
  "py_getitem (VDict (AList.update k v d)) k' =
     (if k' = k then Inr v else py_getitem (VDict d) k')"
  by (simp add: update_conv')

lemma set_output_quantizer_result:
  assumes "set_output_quantizer r alg en = Inr r'"
  shows "\<exists>d inner.
           r = VDict d \<and> map_of d (KStr ''quant_cfg'') = Some (VDict inner) \<and>
           r' = VDict (AList.update (KStr ''quant_cfg'')
                  (VDict (AList.update (KStr ''*output_quantizer'') (output_quantizer alg en) inner)) d)"
proof -
  from assms obtain inner0 inner1 where
    g: "py_getitem r (KStr ''quant_cfg'') = Inr inner0" and
    s: "py_setitem inner0 (KStr ''*output_quantizer'') (output_quantizer alg en) = Inr inner1" and
    r': "r' = put_child r (KStr ''quant_cfg'') inner1"
    by (auto simp: set_output_quantizer_def split: sum.splits)
  from getitem_str_key [OF g] obtain d where
    d: "r = VDict d" "map_of d (KStr ''quant_cfg'') = Some inner0" by blast
  from setitem_str_key [OF s] obtain inner where
    i: "inner0 = VDict inner"
       "inner1 = VDict (AList.update (KStr ''*output_quantizer'') (output_quantizer alg en) inner)"
    by blast
  from d i r' show ?thesis by simp
qed

lemma set_output_quantizer_ok:
  "py_getitem r (KStr ''quant_cfg'') = Inr (VDict inner) \<Longrightarrow>
   \<exists>r'. set_output_quantizer r alg en = Inr r'"
  by (simp add: set_output_quantizer_def)

lemma set_smoothquant_result:
  "set_smoothquant r alpha = Inr r' \<Longrightarrow>
   \<exists>d. r = VDict d \<and>
       r' = VDict (AList.update (KStr ''algorithm'')
              (VDict [(KStr ''method'', VStr ''smoothquant''), (KStr ''alpha'', VFloat alpha)]) d)"
  unfolding set_smoothquant_def by (rule setitem_str_key)

lemma set_output_quantizer_reads:
  assumes "set_output_quantizer r alg en = Inr r'"
  shows "get_path r' [KStr ''quant_cfg'', KStr ''*output_quantizer''] = Inr (output_quantizer alg en)"
    and "k \<noteq> KStr ''*output_quantizer'' \<Longrightarrow>
         get_path r' (KStr ''quant_cfg'' # k # ks) = get_path r (KStr ''quant_cfg'' # k # ks)"
    and "k \<noteq> KStr ''quant_cfg'' \<Longrightarrow> py_getitem r' k = py_getitem r k"
    and "\<exists>inner. py_getitem r' (KStr ''quant_cfg'') = Inr (VDict inner)"
  using set_output_quantizer_result [OF assms] by (auto simp: update_conv')

lemma set_smoothquant_reads:
  assumes "set_smoothquant r alpha = Inr r'"
  shows "k \<noteq> KStr ''algorithm'' \<Longrightarrow> py_getitem r' k = py_getitem r k"
    and "py_getitem r' (KStr ''algorithm'') =
           Inr (VDict [(KStr ''method'', VStr ''smoothquant''), (KStr ''alpha'', VFloat alpha)])"
  using set_smoothquant_result [OF assms] by (auto simp: update_conv')

lemma py_index_less: "py_index xs i = Inr j \<Longrightarrow> j < length xs"
  by (auto simp: py_index_def Let_def split: if_splits)

lemma py_index_update: "py_index (xs[j := v]) i = py_index xs i"
  by (simp add: py_index_def)

lemma setitem_then_getitem:
  "py_setitem obj k v = Inr obj' \<Longrightarrow> py_getitem obj' k = Inr v"
proof (cases obj)
  case (VDict d)
  assume "py_setitem obj k v = Inr obj'"
  with VDict show ?thesis by (auto simp: update_conv')
next
  case (VList xs)
  assume a: "py_setitem obj k v = Inr obj'"
  show ?thesis
  proof (cases k)
    case (KInt i)
    with a VList obtain j where j: "py_index xs i = Inr j" "obj' = VList (xs[j := v])"
      by (auto split: sum.splits)
    with py_index_less [OF j(1)] KInt show ?thesis
      by (simp add: py_index_update)
  next
    case (KStr s)
    with a VList show ?thesis by simp
  qed
qed auto

lemma set_block_size_result:
  assumes "set_block_size w bs = Inr w'"
  shows "get_path w' [KStr ''block_sizes'', KInt (- 1)] = Inr (VInt bs)"
proof -
  from assms obtain b b' where
    g: "py_getitem w (KStr ''block_sizes'') = Inr b" and
    s: "py_setitem b (KInt (- 1)) (VInt bs) = Inr b'" and
    w': "w' = put_child w (KStr ''block_sizes'') b'"
    by (auto simp: set_block_size_def split: sum.splits)
  from getitem_str_key [OF g] obtain d where "w = VDict d" by blast
  with w' have "py_getitem w' (KStr ''block_sizes'') = Inr b'"
    by (simp add: update_conv')
  with setitem_then_getitem [OF s] show ?thesis by simp
qed

lemma set_block_size_is_dict:
  "set_block_size w bs = Inr w' \<Longrightarrow> \<exists>d. w' = VDict d"
  by (auto simp: set_block_size_def split: sum.splits dest!: getitem_str_key)

lemma set_block_size_ok:
  "block_sizes_ok w \<Longrightarrow> \<exists>w'. set_block_size w bs = Inr w'"
  by (auto simp: block_sizes_ok_def set_block_size_def py_index_def Let_def
           split: sum.splits pyval.splits)

lemma awq_step_result:
  assumes "awq_step r bs = Inr r'"
  shows "awq_block_size_entry r' = Inr (VInt bs)"
    and "\<exists>inner. py_getitem r' (KStr ''quant_cfg'') = Inr (VDict inner)"
proof -
  from assms obtain inner w where
    g: "py_getitem r (KStr ''quant_cfg'') = Inr inner" and
    gw: "py_getitem inner (KStr ''*weight_quantizer'') = Inr w"
    by (auto simp: awq_step_def split: sum.splits)
  from getitem_str_key [OF g] obtain d where d: "r = VDict d" by blast
  from getitem_str_key [OF gw] obtain di where di: "inner = VDict di" by blast
  have "awq_block_size_entry r' = Inr (VInt bs) \<and>
        (\<exists>inner. py_getitem r' (KStr ''quant_cfg'') = Inr (VDict inner))"
  proof (cases "\<exists>ws. w = VList ws")
    case True
    then obtain ws where ws: "w = VList ws" by blast
    with assms g gw obtain w0 w0' where
      g0: "py_getitem (VList ws) (KInt 0) = Inr w0" and
      sb: "set_block_size w0 bs = Inr w0'" and
      r': "r' = put_child r (KStr ''quant_cfg'')
                 (put_child inner (KStr ''*weight_quantizer'') (put_child (VList ws) (KInt 0) w0'))"
      by (auto simp: awq_step_def split: sum.splits)
    from g0 have ne: "ws \<noteq> []"
      by (auto simp: py_index_def)
    then have idx: "py_index ws 0 = Inr 0" "py_index (ws[0 := w0']) 0 = Inr 0"
      by (simp_all add: py_index_def)
    from ne have nth: "ws[0 := w0'] ! 0 = w0'" by simp
    from r' d di idx have
      "get_path r' [KStr ''quant_cfg'', KStr ''*weight_quantizer''] = Inr (VList (ws[0 := w0']))"
      and q: "py_getitem r' (KStr ''quant_cfg'') =
                Inr (VDict (AList.update (KStr ''*weight_quantizer'') (VList (ws[0 := w0'])) di))"
      by (simp_all add: update_conv')
    then have "awq_block_size_entry r' =
        get_path (VList (ws[0 := w0'])) [KInt 0, KStr ''block_sizes'', KInt (- 1)]"
      by (simp add: awq_block_size_entry_def)
    also have "\<dots> = get_path w0' [KStr ''block_sizes'', KInt (- 1)]"
      using idx nth by simp
    also have "\<dots> = Inr (VInt bs)"
      by (rule set_block_size_result [OF sb])
    finally show ?thesis using q by blast
  next
    case False
    with assms g gw obtain w' where
      sb: "set_block_size w bs = Inr w'" and
      r': "r' = put_child r (KStr ''quant_cfg'') (put_child inner (KStr ''*weight_quantizer'') w')"
      by (cases w) (auto simp: awq_step_def split: sum.splits)
    from set_block_size_is_dict [OF sb] obtain dw where dw: "w' = VDict dw" by blast
    from r' d di have
      p: "get_path r' [KStr ''quant_cfg'', KStr ''*weight_quantizer''] = Inr w'"
      and q: "py_getitem r' (KStr ''quant_cfg'') =
                Inr (VDict (AList.update (KStr ''*weight_quantizer'') w' di))"
      by (simp_all add: update_conv')
    from p dw have "awq_block_size_entry r' = get_path w' [KStr ''block_sizes'', KInt (- 1)]"
      by (simp add: awq_block_size_entry_def)
    with set_block_size_result [OF sb] q show ?thesis by simp
  qed
  then show "awq_block_size_entry r' = Inr (VInt bs)"
    and "\<exists>inner. py_getitem r' (KStr ''quant_cfg'') = Inr (VDict inner)"
    by blast+
qed

lemma awq_step_ok:
  assumes "py_getitem r (KStr ''quant_cfg'') = Inr (VDict inner)"
    and "weight_quantizer_ok (VDict inner)"
  shows "\<exists>r'. awq_step r bs = Inr r'"
proof -
  from assms(2) obtain w where
    gw: "py_getitem (VDict inner) (KStr ''*weight_quantizer'') = Inr w"
    by (auto simp: weight_quantizer_ok_def split: sum.splits)
  show ?thesis
  proof (cases "\<exists>ws. w = VList ws")
    case True
    then obtain ws where ws: "w = VList ws" by blast
    with assms(2) gw obtain w0 rest where c: "ws = w0 # rest" "block_sizes_ok w0"
      by (auto simp: weight_quantizer_ok_def split: list.splits)
    from set_block_size_ok [OF c(2), of bs] obtain w0' where "set_block_size w0 bs = Inr w0'"
      by blast
    with assms(1) gw ws c(1) show ?thesis
      by (simp add: awq_step_def py_index_def)
  next
    case False
    with assms(2) gw have "block_sizes_ok w"
      by (cases w) (auto simp: weight_quantizer_ok_def)
    from set_block_size_ok [OF this, of bs] obtain w' where "set_block_size w bs = Inr w'"
      by blast
    with assms(1) gw False show ?thesis
      by (cases w) (simp_all add: awq_step_def)
  qed
qed

lemma build_recipe_table:
  "build_recipe q table alg dec = Inr (recipe, table') \<Longrightarrow> table' = table(alg \<mapsto> recipe)"
  by (auto simp: build_recipe_def split: option.splits sum.splits)

lemma build_recipe_steps:
  assumes "build_recipe q table alg dec = Inr (recipe, table')"
  obtains template r1 r2 where
    "table alg = Some template"
    "(if str_contains ''awq'' alg then awq_step template (awq_block_size q) else Inr template) = Inr r1"
    "set_output_quantizer r1 alg (kv_cache_enabled (enable_kv_cache q) alg dec) = Inr r2"
    "(if alg = ''int8_sq'' then set_smoothquant r2 (sq_alpha q) else Inr r2) = Inr recipe"
  using assms by (auto simp: build_recipe_def split: option.splits sum.splits)

lemma smoothquant_keeps_quant_cfg:
  assumes "(if alg = ''int8_sq'' then set_smoothquant r2 alpha else Inr r2) = Inr recipe"
  shows "get_path recipe (KStr ''quant_cfg'' # ks) = get_path r2 (KStr ''quant_cfg'' # ks)"
proof (cases "alg = ''int8_sq''")
  case True
  with assms have "set_smoothquant r2 alpha = Inr recipe" by simp
  from set_smoothquant_reads(1) [OF this, of "KStr ''quant_cfg''"] show ?thesis by simp
next
  case False
  with assms show ?thesis by simp
qed

lemma build_recipe_output:
  assumes "build_recipe q table alg dec = Inr (recipe, table')"
  shows "get_path recipe [KStr ''quant_cfg'', KStr ''*output_quantizer''] =
           Inr (output_quantizer alg (kv_cache_enabled (enable_kv_cache q) alg dec))"
proof -
  from assms obtain template r1 r2 where
    t: "table alg = Some template" and
    s1: "(if str_contains ''awq'' alg then awq_step template (awq_block_size q) else Inr template) = Inr r1" and
    s2: "set_output_quantizer r1 alg (kv_cache_enabled (enable_kv_cache q) alg dec) = Inr r2" and
    s3: "(if alg = ''int8_sq'' then set_smoothquant r2 (sq_alpha q) else Inr r2) = Inr recipe"
    by (rule build_recipe_steps)
  from smoothquant_keeps_quant_cfg [OF s3] set_output_quantizer_reads(1) [OF s2]
  show ?thesis by simp
qed

lemma output_quantizer_enable:
  "py_getitem (output_quantizer alg en) (KStr ''enable'') = Inr (VBool en)"
  by (simp add: output_quantizer_def)

lemma get_path_append:
  "get_path v (ks @ ks') = (case get_path v ks of Inl e \<Rightarrow> Inl e | Inr c \<Rightarrow> get_path c ks')"
  by (induction ks arbitrary: v) (auto split: sum.splits)

lemma build_recipe_enable:
  assumes "build_recipe q table alg dec = Inr (recipe, table')"
  shows "get_path recipe [KStr ''quant_cfg'', KStr ''*output_quantizer'', KStr ''enable''] =
           Inr (VBool (kv_cache_enabled (enable_kv_cache q) alg dec))"
proof -
  have "get_path recipe ([KStr ''quant_cfg'', KStr ''*output_quantizer''] @ [KStr ''enable'']) =
          Inr (VBool (kv_cache_enabled (enable_kv_cache q) alg dec))"
    unfolding get_path_append build_recipe_output [OF assms]
    by (simp add: output_quantizer_enable)
  then show ?thesis by simp
qed

lemma awq_entry_cong:
  "get_path r' [KStr ''quant_cfg'', KStr ''*weight_quantizer''] =
   get_path r [KStr ''quant_cfg'', KStr ''*weight_quantizer''] \<Longrightarrow>
   awq_block_size_entry r' = awq_block_size_entry r"
  by (simp add: awq_block_size_entry_def)

lemma build_recipe_weight_quantizer:
  assumes "build_recipe q table alg dec = Inr (recipe, table')"
  shows "\<exists>template r1.
    table alg = Some template \<and>
    (if str_contains ''awq'' alg then awq_step template (awq_block_size q) else Inr template) = Inr r1 \<and>
    get_path recipe [KStr ''quant_cfg'', KStr ''*weight_quantizer''] =
      get_path r1 [KStr ''quant_cfg'', KStr ''*weight_quantizer'']"
proof -
  from assms obtain template r1 r2 where
    t: "table alg = Some template" and
    s1: "(if str_contains ''awq'' alg then awq_step template (awq_block_size q) else Inr template) = Inr r1" and
    s2: "set_output_quantizer r1 alg (kv_cache_enabled (enable_kv_cache q) alg dec) = Inr r2" and
    s3: "(if alg = ''int8_sq'' then set_smoothquant r2 (sq_alpha q) else Inr r2) = Inr recipe"
    by (rule build_recipe_steps)
  have "get_path recipe [KStr ''quant_cfg'', KStr ''*weight_quantizer''] =
        get_path r1 [KStr ''quant_cfg'', KStr ''*weight_quantizer'']"
    using smoothquant_keeps_quant_cfg [OF s3, of "[KStr ''*weight_quantizer'']"]
          set_output_quantizer_reads(2) [OF s2, of "KStr ''*weight_quantizer''" "[]"]
    by simp
  with t s1 show ?thesis by blast
qed

lemma build_recipe_awq:
  assumes "build_recipe q table alg dec = Inr (recipe, table')" and "str_contains ''awq'' alg"
  shows "awq_block_size_entry recipe = Inr (VInt (awq_block_size q))"
proof -
  from build_recipe_weight_quantizer [OF assms(1)] obtain template r1 where
    s1: "(if str_contains ''awq'' alg then awq_step template (awq_block_size q) else Inr template) = Inr r1" and
    eq: "get_path recipe [KStr ''quant_cfg'', KStr ''*weight_quantizer''] =
         get_path r1 [KStr ''quant_cfg'', KStr ''*weight_quantizer'']"
    by blast
  from s1 assms(2) have "awq_step template (awq_block_size q) = Inr r1" by simp
  from awq_step_result(1) [OF this] awq_entry_cong [OF eq]
  show ?thesis by simp
qed

lemma build_recipe_non_awq:
  assumes "build_recipe q table alg dec = Inr (recipe, table')" and "\<not> str_contains ''awq'' alg"
    and "table alg = Some template"
  shows "get_path recipe [KStr ''quant_cfg'', KStr ''*weight_quantizer''] =
         get_path template [KStr ''quant_cfg'', KStr ''*weight_quantizer'']"
proof -
  from build_recipe_weight_quantizer [OF assms(1)] obtain template' r1 where
    t: "table alg = Some template'" and
    s1: "(if str_contains ''awq'' alg then awq_step template' (awq_block_size q) else Inr template') = Inr r1" and
    eq: "get_path recipe [KStr ''quant_cfg'', KStr ''*weight_quantizer''] =
         get_path r1 [KStr ''quant_cfg'', KStr ''*weight_quantizer'']"
    by blast
  from t assms(3) have "template' = template" by simp
  with s1 assms(2) have "r1 = template" by simp
  with eq show ?thesis by simp
qed

lemma build_recipe_ok:
  assumes "table alg = Some template" and "recipe_shape_ok alg template"
  shows "\<exists>recipe. build_recipe q table alg dec = Inr (recipe, table(alg \<mapsto> recipe))"
proof -
  from assms(2) obtain inner where
    g: "py_getitem template (KStr ''quant_cfg'') = Inr (VDict inner)" and
    w: "str_contains ''awq'' alg \<longrightarrow> weight_quantizer_ok (VDict inner)"
    by (auto simp: recipe_shape_ok_def split: sum.splits pyval.splits)
  have "\<exists>r1 inner1.
          (if str_contains ''awq'' alg then awq_step template (awq_block_size q) else Inr template) = Inr r1
          \<and> py_getitem r1 (KStr ''quant_cfg'') = Inr (VDict inner1)"
  proof (cases "str_contains ''awq'' alg")
    case True
    with w awq_step_ok [OF g, of "awq_block_size q"] obtain r1 where
      "awq_step template (awq_block_size q) = Inr r1" by blast
    with awq_step_result(2) [OF this] True show ?thesis by auto
  next
    case False
    with g show ?thesis by auto
  qed
  then obtain r1 inner1 where
    s1: "(if str_contains ''awq'' alg then awq_step template (awq_block_size q) else Inr template) = Inr r1" and
    g1: "py_getitem r1 (KStr ''quant_cfg'') = Inr (VDict inner1)" by blast
  from set_output_quantizer_ok [OF g1] obtain r2 where
    s2: "set_output_quantizer r1 alg (kv_cache_enabled (enable_kv_cache q) alg dec) = Inr r2"
    by blast
  from set_output_quantizer_result [OF s2] obtain d2 where "r2 = VDict d2" by blast
  then have "\<exists>r3. (if alg = ''int8_sq'' then set_smoothquant r2 (sq_alpha q) else Inr r2) = Inr r3"
    by (simp add: set_smoothquant_def)
  then obtain r3 where
    s3: "(if alg = ''int8_sq'' then set_smoothquant r2 (sq_alpha q) else Inr r2) = Inr r3"
    by blast
  from assms(1) s1 s2 s3 have "build_recipe q table alg dec = Inr (r3, table(alg \<mapsto> r3))"
    by (simp add: build_recipe_def)
  then show ?thesis by blast
qed

lemma quantize_Some:
  assumes "algorithm (quantization_config self) = Some alg"
    and "get_decoder_type self (mconfig (get_unwrapped_mcore_model model)) = Inr (dec, warnings)"
    and "build_recipe (quantization_config self) table alg dec = Inr (recipe, table')"
  shows "quantize self table rank model =
     Inr (setup_model self model, table',
          ([LogInfo (''Quantizing model to '' @ alg @ ''...'')]
           @ warnings
           @ [LogInfo ((if kv_cache_enabled (enable_kv_cache (quantization_config self)) alg dec
                        then ''Enabled'' else ''Disabled'') @ '' KV cache quantization'')]
           @ (if alg = ''int8_sq'' then [LogInfoAlpha (sq_alpha (quantization_config self))] else []))
          @ [MtqQuantize recipe]
          @ ((if dec = ''gptnext'' then [PostprocessAmax ''*input_quantizer'' (clamp_threshold alg)]
              else [])
             @ (if rank = 0 then [PrintQuantSummary] else [])))"
  using assms
  by (simp add: quantize_def Let_def get_unwrapped_mcore_model_def setup_model_def)

section \<open>Properties of quantize\<close>

lemma quantize_returns:
  assumes "algorithm (quantization_config self) = Some alg"
    and "get_decoder_type self (mconfig (get_unwrapped_mcore_model model)) = Inr (dec, warnings)"
    and "table alg = Some template"
    and "recipe_shape_ok alg template"
  shows "\<exists>recipe pre.
      build_recipe (quantization_config self) table alg dec = Inr (recipe, table(alg \<mapsto> recipe))
      \<and> (\<forall>e \<in> set pre. \<not> is_postprocess e)
      \<and> quantize self table rank model =
          Inr (setup_model self model, table(alg \<mapsto> recipe),
               pre @ [MtqQuantize recipe]
               @ ((if dec = ''gptnext''
                   then [PostprocessAmax ''*input_quantizer'' (clamp_threshold alg)] else [])
                  @ (if rank = 0 then [PrintQuantSummary] else [])))"
proof -
  have "\<exists>recipe. build_recipe (quantization_config self) table alg dec
          = Inr (recipe, table(alg \<mapsto> recipe))"
    using assms(3,4) by (rule build_recipe_ok)
  then obtain recipe where
    b: "build_recipe (quantization_config self) table alg dec = Inr (recipe, table(alg \<mapsto> recipe))"
    by blast
  let ?pre = "[LogInfo (''Quantizing model to '' @ alg @ ''...'')]
           @ warnings
           @ [LogInfo ((if kv_cache_enabled (enable_kv_cache (quantization_config self)) alg dec
                        then ''Enabled'' else ''Disabled'') @ '' KV cache quantization'')]
           @ (if alg = ''int8_sq'' then [LogInfoAlpha (sq_alpha (quantization_config self))] else [])"
  have w: "\<forall>e \<in> set warnings. \<not> is_postprocess e"
    using assms(2)
    by (auto simp: get_decoder_type_def get_modelopt_decoder_type_def
             split: option.splits if_splits)
  then have "\<forall>e \<in> set ?pre. \<not> is_postprocess e" by auto
  with b quantize_Some [OF assms(1,2) b, of rank] show ?thesis by blast
qed

lemma sample_algorithm:
  "algorithm (quantization_config (sample_quantizer qcfg)) = algorithm qcfg"
  "enable_kv_cache (quantization_config (sample_quantizer qcfg)) = enable_kv_cache qcfg"
  "awq_block_size (quantization_config (sample_quantizer qcfg)) = awq_block_size qcfg"
  by (simp_all add: sample_quantizer_def)

lemma sample_decoder_type:
  "get_decoder_type (sample_quantizer qcfg)
     (mconfig (get_unwrapped_mcore_model (sample_model [NemotronConfig]))) = Inr (''gptnext'', [])"
  "get_decoder_type (sample_quantizer qcfg)
     (mconfig (get_unwrapped_mcore_model (sample_model [LlamaConfig]))) = Inr (''llama'', [])"
  by (simp_all add: get_decoder_type_def sample_quantizer_def sample_export_config_def
        get_unwrapped_mcore_model_def sample_model_def sample_config_def
        get_modelopt_decoder_type_def mapping_def isinstance_def)

lemma sample_table:
  "QUANT_CFG_CHOICES sample_mtq ''fp8'' = Some (FP8_DEFAULT_CFG sample_mtq)"
  "QUANT_CFG_CHOICES sample_mtq ''int8_sq'' = Some (INT8_SMOOTHQUANT_CFG sample_mtq)"
  "QUANT_CFG_CHOICES sample_mtq ''w4a8_awq'' = Some (W4A8_AWQ_BETA_CFG sample_mtq)"
  by (simp_all add: QUANT_CFG_CHOICES_def)

lemma sample_shape:
  "recipe_shape_ok ''fp8'' (FP8_DEFAULT_CFG sample_mtq)"
  "recipe_shape_ok ''int8_sq'' (INT8_SMOOTHQUANT_CFG sample_mtq)"
  "recipe_shape_ok ''w4a8_awq'' (W4A8_AWQ_BETA_CFG sample_mtq)"
  by (simp_all add: recipe_shape_ok_def sample_mtq_def disabled_quantizer_cfg_def
        weight_quantizer_ok_def block_sizes_ok_def)

text \<open>
  C1. A call of \<^verbatim>\<open>quantize\<close> with an algorithm of the table returns, and in the recipe it
  hands to the toolkit the enable flag of the output quantizer is the caller's
  \<open>enable_kv_cache\<close> when that is true or false; when it is \<open>None\<close>, the flag is true
  exactly when the algorithm name does not contain "int8" and the resolved decoder type is
  not "gptnext".
\<close>

theorem kv_cache_enable_flag:
  assumes "algorithm (quantization_config self) = Some alg"
    and "get_decoder_type self (mconfig (get_unwrapped_mcore_model model)) = Inr (dec, warnings)"
    and "table alg = Some template"
    and "recipe_shape_ok alg template"
  shows "\<exists>model' table' events recipe.
      quantize self table rank model = Inr (model', table', events)
      \<and> MtqQuantize recipe \<in> set events
      \<and> (enable_kv_cache (quantization_config self) = Some True \<longrightarrow>
           get_path recipe [KStr ''quant_cfg'', KStr ''*output_quantizer'', KStr ''enable'']
             = Inr (VBool True))
      \<and> (enable_kv_cache (quantization_config self) = Some False \<longrightarrow>
           get_path recipe [KStr ''quant_cfg'', KStr ''*output_quantizer'', KStr ''enable'']
             = Inr (VBool False))
      \<and> (enable_kv_cache (quantization_config self) = None \<longrightarrow>
           get_path recipe [KStr ''quant_cfg'', KStr ''*output_quantizer'', KStr ''enable'']
             = Inr (VBool (\<not> sublist ''int8'' alg \<and> dec \<noteq> ''gptnext'')))"
proof -
  from quantize_returns [of self alg model dec warnings table template rank, OF assms]
  obtain recipe pre where
    b: "build_recipe (quantization_config self) table alg dec = Inr (recipe, table(alg \<mapsto> recipe))" and
    q: "quantize self table rank model =
          Inr (setup_model self model, table(alg \<mapsto> recipe),
               pre @ [MtqQuantize recipe]
               @ ((if dec = ''gptnext''
                   then [PostprocessAmax ''*input_quantizer'' (clamp_threshold alg)] else [])
                  @ (if rank = 0 then [PrintQuantSummary] else [])))"
    by blast
  have flag: "get_path recipe [KStr ''quant_cfg'', KStr ''*output_quantizer'', KStr ''enable'']
      = Inr (VBool (kv_cache_enabled (enable_kv_cache (quantization_config self)) alg dec))"
    by (rule build_recipe_enable [OF b])
  have on: "enable_kv_cache (quantization_config self) = Some True \<longrightarrow>
           get_path recipe [KStr ''quant_cfg'', KStr ''*output_quantizer'', KStr ''enable'']
             = Inr (VBool True)"
    using flag by (simp add: kv_cache_enabled_def)
  have off: "enable_kv_cache (quantization_config self) = Some False \<longrightarrow>
           get_path recipe [KStr ''quant_cfg'', KStr ''*output_quantizer'', KStr ''enable'']
             = Inr (VBool False)"
    using flag by (simp add: kv_cache_enabled_def)
  have auto_flag: "enable_kv_cache (quantization_config self) = None \<longrightarrow>
           get_path recipe [KStr ''quant_cfg'', KStr ''*output_quantizer'', KStr ''enable'']
             = Inr (VBool (\<not> sublist ''int8'' alg \<and> dec \<noteq> ''gptnext''))"
    using flag by (simp add: kv_cache_enabled_def str_contains_sublist)
  have mem: "MtqQuantize recipe \<in> set (pre @ [MtqQuantize recipe]
               @ ((if dec = ''gptnext''
                   then [PostprocessAmax ''*input_quantizer'' (clamp_threshold alg)] else [])
                  @ (if rank = 0 then [PrintQuantSummary] else [])))"
    by simp
  show ?thesis
    by (intro exI conjI) (rule q, rule mem, rule on, rule off, rule auto_flag)
qed

theorem kv_cache_enable_flag_witness:
  "(\<exists>model' table' events recipe.
      quantize (sample_quantizer (default_QuantizationConfig\<lparr>enable_kv_cache := None\<rparr>))
        (QUANT_CFG_CHOICES sample_mtq) 0 (sample_model [NemotronConfig])
        = Inr (model', table', events)
      \<and> MtqQuantize recipe \<in> set events
      \<and> get_path recipe [KStr ''quant_cfg'', KStr ''*output_quantizer'', KStr ''enable'']
          = Inr (VBool False))
   \<and> (\<exists>model' table' events recipe.
      quantize (sample_quantizer (default_QuantizationConfig\<lparr>enable_kv_cache := None\<rparr>))
        (QUANT_CFG_CHOICES sample_mtq) 0 (sample_model [LlamaConfig])
        = Inr (model', table', events)
      \<and> MtqQuantize recipe \<in> set events
      \<and> get_path recipe [KStr ''quant_cfg'', KStr ''*output_quantizer'', KStr ''enable'']
          = Inr (VBool True))
   \<and> (\<exists>model' table' events recipe.
      quantize (sample_quantizer (default_QuantizationConfig\<lparr>enable_kv_cache := Some False\<rparr>))
        (QUANT_CFG_CHOICES sample_mtq) 0 (sample_model [LlamaConfig])
        = Inr (model', table', events)
      \<and> MtqQuantize recipe \<in> set events
      \<and> get_path recipe [KStr ''quant_cfg'', KStr ''*output_quantizer'', KStr ''enable'']
          = Inr (VBool False))"
proof -
  let ?auto = "sample_quantizer (default_QuantizationConfig\<lparr>enable_kv_cache := None\<rparr>)"
  let ?off = "sample_quantizer (default_QuantizationConfig\<lparr>enable_kv_cache := Some False\<rparr>)"
  have a: "algorithm (quantization_config ?auto) = Some ''fp8''"
          "algorithm (quantization_config ?off) = Some ''fp8''"
    by (simp_all add: sample_algorithm default_QuantizationConfig_def)
  have e: "enable_kv_cache (quantization_config ?auto) = None"
          "enable_kv_cache (quantization_config ?off) = Some False"
    by (simp_all add: sample_algorithm)
  have s: "\<not> sublist ''int8'' ''fp8''"
    by (simp add: str_contains_sublist [symmetric])
  from kv_cache_enable_flag [of ?auto "''fp8''" "sample_model [NemotronConfig]" "''gptnext''" "[]"
      "QUANT_CFG_CHOICES sample_mtq" "FP8_DEFAULT_CFG sample_mtq" 0,
      OF a(1) sample_decoder_type(1) sample_table(1) sample_shape(1)]
    e(1) s
  have 1: "\<exists>model' table' events recipe.
      quantize ?auto (QUANT_CFG_CHOICES sample_mtq) 0 (sample_model [NemotronConfig])
        = Inr (model', table', events)
      \<and> MtqQuantize recipe \<in> set events
      \<and> get_path recipe [KStr ''quant_cfg'', KStr ''*output_quantizer'', KStr ''enable'']
          = Inr (VBool False)"
    by simp
  from kv_cache_enable_flag [of ?auto "''fp8''" "sample_model [LlamaConfig]" "''llama''" "[]"
      "QUANT_CFG_CHOICES sample_mtq" "FP8_DEFAULT_CFG sample_mtq" 0,
      OF a(1) sample_decoder_type(2) sample_table(1) sample_shape(1)]
    e(1) s
  have 2: "\<exists>model' table' events recipe.
      quantize ?auto (QUANT_CFG_CHOICES sample_mtq) 0 (sample_model [LlamaConfig])
        = Inr (model', table', events)
      \<and> MtqQuantize recipe \<in> set events
      \<and> get_path recipe [KStr ''quant_cfg'', KStr ''*output_quantizer'', KStr ''enable'']
          = Inr (VBool True)"
    by simp
  from kv_cache_enable_flag [of ?off "''fp8''" "sample_model [LlamaConfig]" "''llama''" "[]"
      "QUANT_CFG_CHOICES sample_mtq" "FP8_DEFAULT_CFG sample_mtq" 0,
      OF a(2) sample_decoder_type(2) sample_table(1) sample_shape(1)]
    e(2)
  have 3: "\<exists>model' table' events recipe.
      quantize ?off (QUANT_CFG_CHOICES sample_mtq) 0 (sample_model [LlamaConfig])
        = Inr (model', table', events)
      \<and> MtqQuantize recipe \<in> set events
      \<and> get_path recipe [KStr ''quant_cfg'', KStr ''*output_quantizer'', KStr ''enable'']
          = Inr (VBool False)"
    by simp
  from 1 2 3 show ?thesis by blast
qed

text \<open>
  C8. For an algorithm whose name contains "awq" the last block-size entry of the weight
  quantizer (of the first one when the entry is a list) in the recipe handed to the toolkit
  is the configured \<open>awq_block_size\<close>; for any other algorithm the weight quantizer of the
  recipe is the one of the template.
\<close>

theorem awq_block_size_in_recipe:
  assumes "algorithm (quantization_config self) = Some alg"
    and "get_decoder_type self (mconfig (get_unwrapped_mcore_model model)) = Inr (dec, warnings)"
    and "table alg = Some template"
    and "recipe_shape_ok alg template"
  shows "\<exists>model' table' events recipe.
      quantize self table rank model = Inr (model', table', events)
      \<and> MtqQuantize recipe \<in> set events
      \<and> (sublist ''awq'' alg \<longrightarrow>
           awq_block_size_entry recipe = Inr (VInt (awq_block_size (quantization_config self))))
      \<and> (\<not> sublist ''awq'' alg \<longrightarrow>
           get_path recipe [KStr ''quant_cfg'', KStr ''*weight_quantizer'']
             = get_path template [KStr ''quant_cfg'', KStr ''*weight_quantizer''])"
proof -
  from quantize_returns [of self alg model dec warnings table template rank, OF assms]
  obtain recipe pre where
    b: "build_recipe (quantization_config self) table alg dec = Inr (recipe, table(alg \<mapsto> recipe))" and
    q: "quantize self table rank model =
          Inr (setup_model self model, table(alg \<mapsto> recipe),
               pre @ [MtqQuantize recipe]
               @ ((if dec = ''gptnext''
                   then [PostprocessAmax ''*input_quantizer'' (clamp_threshold alg)] else [])
                  @ (if rank = 0 then [PrintQuantSummary] else [])))"
    by blast
  have mem: "MtqQuantize recipe \<in> set (pre @ [MtqQuantize recipe]
               @ ((if dec = ''gptnext''
                   then [PostprocessAmax ''*input_quantizer'' (clamp_threshold alg)] else [])
                  @ (if rank = 0 then [PrintQuantSummary] else [])))"
    by simp
  have awq: "sublist ''awq'' alg \<longrightarrow>
           awq_block_size_entry recipe = Inr (VInt (awq_block_size (quantization_config self)))"
    using build_recipe_awq [OF b] by (simp add: str_contains_sublist)
  have other: "\<not> sublist ''awq'' alg \<longrightarrow>
           get_path recipe [KStr ''quant_cfg'', KStr ''*weight_quantizer'']
             = get_path template [KStr ''quant_cfg'', KStr ''*weight_quantizer'']"
    using build_recipe_non_awq [OF b _ assms(3)] by (simp add: str_contains_sublist)
  show ?thesis
    by (intro exI conjI) (rule q, rule mem, rule awq, rule other)
qed

theorem awq_block_size_in_recipe_witness:
  "(\<exists>model' table' events recipe.
      quantize (sample_quantizer
                  (default_QuantizationConfig\<lparr>algorithm := Some ''w4a8_awq'', awq_block_size := 64\<rparr>))
        (QUANT_CFG_CHOICES sample_mtq) 0 (sample_model [LlamaConfig])
        = Inr (model', table', events)
      \<and> MtqQuantize recipe \<in> set events
      \<and> awq_block_size_entry recipe = Inr (VInt 64))
   \<and> (\<exists>model' table' events recipe.
      quantize (sample_quantizer default_QuantizationConfig)
        (QUANT_CFG_CHOICES sample_mtq) 0 (sample_model [LlamaConfig])
        = Inr (model', table', events)
      \<and> MtqQuantize recipe \<in> set events
      \<and> get_path recipe [KStr ''quant_cfg'', KStr ''*weight_quantizer'']
          = Inr (VDict [(KStr ''num_bits'', VTuple [VInt 4, VInt 3]), (KStr ''axis'', VNone)]))"
proof -
  let ?awq = "sample_quantizer
                (default_QuantizationConfig\<lparr>algorithm := Some ''w4a8_awq'', awq_block_size := 64\<rparr>)"
  let ?fp8 = "sample_quantizer default_QuantizationConfig"
  have a: "algorithm (quantization_config ?awq) = Some ''w4a8_awq''"
          "algorithm (quantization_config ?fp8) = Some ''fp8''"
    by (simp_all add: sample_algorithm default_QuantizationConfig_def)
  have bs: "awq_block_size (quantization_config ?awq) = 64"
    by (simp add: sample_algorithm)
  have s: "sublist ''awq'' ''w4a8_awq''" "\<not> sublist ''awq'' ''fp8''"
    by (simp_all add: str_contains_sublist [symmetric])
  have t: "get_path (FP8_DEFAULT_CFG sample_mtq) [KStr ''quant_cfg'', KStr ''*weight_quantizer'']
      = Inr (VDict [(KStr ''num_bits'', VTuple [VInt 4, VInt 3]), (KStr ''axis'', VNone)])"
    by (simp add: sample_mtq_def)
  from awq_block_size_in_recipe [of ?awq "''w4a8_awq''" "sample_model [LlamaConfig]" "''llama''" "[]"
      "QUANT_CFG_CHOICES sample_mtq" "W4A8_AWQ_BETA_CFG sample_mtq" 0,
      OF a(1) sample_decoder_type(2) sample_table(3) sample_shape(3)] bs s(1)
  have 1: "\<exists>model' table' events recipe.
      quantize ?awq (QUANT_CFG_CHOICES sample_mtq) 0 (sample_model [LlamaConfig])
        = Inr (model', table', events)
      \<and> MtqQuantize recipe \<in> set events
      \<and> awq_block_size_entry recipe = Inr (VInt 64)"
    by simp
  from awq_block_size_in_recipe [of ?fp8 "''fp8''" "sample_model [LlamaConfig]" "''llama''" "[]"
      "QUANT_CFG_CHOICES sample_mtq" "FP8_DEFAULT_CFG sample_mtq" 0,
      OF a(2) sample_decoder_type(2) sample_table(1) sample_shape(1)] s(2) t
  have 2: "\<exists>model' table' events recipe.
      quantize ?fp8 (QUANT_CFG_CHOICES sample_mtq) 0 (sample_model [LlamaConfig])
        = Inr (model', table', events)
      \<and> MtqQuantize recipe \<in> set events
      \<and> get_path recipe [KStr ''quant_cfg'', KStr ''*weight_quantizer'']
          = Inr (VDict [(KStr ''num_bits'', VTuple [VInt 4, VInt 3]), (KStr ''axis'', VNone)])"
    by simp
  from 1 2 show ?thesis by blast
qed

text \<open>
  C7. The events before the toolkit's \<^verbatim>\<open>quantize\<close> call hold no amax post-processing.
  After the call there is exactly one when the resolved decoder type is "gptnext", on the
  input quantizers and with the minimum 0.01 times 448 for "fp8", 0.01 times 127 for
  "int8_sq" and 0 otherwise, and none for any other decoder type. A clamp with minimum 0
  leaves a non-negative amax as it is.
\<close>

theorem amax_postprocessing:
  assumes "algorithm (quantization_config self) = Some alg"
    and "get_decoder_type self (mconfig (get_unwrapped_mcore_model model)) = Inr (dec, warnings)"
    and "table alg = Some template"
    and "recipe_shape_ok alg template"
  shows "\<exists>model' table' pre recipe post.
      quantize self table rank model = Inr (model', table', pre @ [MtqQuantize recipe] @ post)
      \<and> (\<forall>e \<in> set pre. \<not> is_postprocess e)
      \<and> (dec = ''gptnext'' \<longrightarrow>
           filter is_postprocess post =
             [PostprocessAmax ''*input_quantizer''
                (if alg = ''fp8'' then 0.01 * 448 else if alg = ''int8_sq'' then 0.01 * 127 else 0)])
      \<and> (dec \<noteq> ''gptnext'' \<longrightarrow> filter is_postprocess post = [])
      \<and> (\<forall>amax. 0 \<le> amax \<longrightarrow> clamp_min amax 0 = amax)"
proof -
  from quantize_returns [of self alg model dec warnings table template rank, OF assms]
  obtain recipe pre where
    p: "\<forall>e \<in> set pre. \<not> is_postprocess e" and
    q: "quantize self table rank model =
          Inr (setup_model self model, table(alg \<mapsto> recipe),
               pre @ [MtqQuantize recipe]
               @ ((if dec = ''gptnext''
                   then [PostprocessAmax ''*input_quantizer'' (clamp_threshold alg)] else [])
                  @ (if rank = 0 then [PrintQuantSummary] else [])))"
    by blast
  let ?post = "(if dec = ''gptnext''
                   then [PostprocessAmax ''*input_quantizer'' (clamp_threshold alg)] else [])
                  @ (if rank = 0 then [PrintQuantSummary] else [])"
  have th: "clamp_threshold alg =
      (if alg = ''fp8'' then 0.01 * 448 else if alg = ''int8_sq'' then 0.01 * 127 else 0)"
    by (simp add: clamp_threshold_def maxbound_def)
  have on: "dec = ''gptnext'' \<longrightarrow>
           filter is_postprocess ?post =
             [PostprocessAmax ''*input_quantizer''
                (if alg = ''fp8'' then 0.01 * 448 else if alg = ''int8_sq'' then 0.01 * 127 else 0)]"
    unfolding th [symmetric] by simp
  have off: "dec \<noteq> ''gptnext'' \<longrightarrow> filter is_postprocess ?post = []"
    by simp
  have noop: "\<forall>amax. 0 \<le> amax \<longrightarrow> clamp_min amax 0 = amax"
    by (simp add: clamp_min_def)
  show ?thesis
    by (intro exI conjI) (rule q, rule p, rule on, rule off, rule noop)
qed

theorem amax_postprocessing_witness:
  "(\<exists>model' table' pre recipe post.
      quantize (sample_quantizer default_QuantizationConfig)
        (QUANT_CFG_CHOICES sample_mtq) 0 (sample_model [NemotronConfig])
        = Inr (model', table', pre @ [MtqQuantize recipe] @ post)
      \<and> (\<forall>e \<in> set pre. \<not> is_postprocess e)
      \<and> filter is_postprocess post = [PostprocessAmax ''*input_quantizer'' (0.01 * 448)])
   \<and> (\<exists>model' table' pre recipe post.
      quantize (sample_quantizer default_QuantizationConfig)
        (QUANT_CFG_CHOICES sample_mtq) 0 (sample_model [LlamaConfig])
        = Inr (model', table', pre @ [MtqQuantize recipe] @ post)
      \<and> (\<forall>e \<in> set pre. \<not> is_postprocess e)
      \<and> filter is_postprocess post = [])
   \<and> clamp_min 3 0 = 3"
proof -
  let ?fp8 = "sample_quantizer default_QuantizationConfig"
  have a: "algorithm (quantization_config ?fp8) = Some ''fp8''"
    by (simp add: sample_algorithm default_QuantizationConfig_def)
  note g = amax_postprocessing [of ?fp8 "''fp8''" "sample_model [NemotronConfig]" "''gptnext''" "[]"
      "QUANT_CFG_CHOICES sample_mtq" "FP8_DEFAULT_CFG sample_mtq" 0,
      OF a sample_decoder_type(1) sample_table(1) sample_shape(1)]
  note l = amax_postprocessing [of ?fp8 "''fp8''" "sample_model [LlamaConfig]" "''llama''" "[]"
      "QUANT_CFG_CHOICES sample_mtq" "FP8_DEFAULT_CFG sample_mtq" 0,
      OF a sample_decoder_type(2) sample_table(1) sample_shape(1)]
  from g obtain gm gt gpre grecipe gpost where
    g1: "quantize ?fp8 (QUANT_CFG_CHOICES sample_mtq) 0 (sample_model [NemotronConfig])
           = Inr (gm, gt, gpre @ [MtqQuantize grecipe] @ gpost)" and
    g2: "\<forall>e \<in> set gpre. \<not> is_postprocess e" and
    g3: "''gptnext'' = ''gptnext'' \<longrightarrow>
           filter is_postprocess gpost =
             [PostprocessAmax ''*input_quantizer''
                (if ''fp8'' = ''fp8'' then 0.01 * 448
                 else if ''fp8'' = ''int8_sq'' then 0.01 * 127 else 0)]" and
    g5: "\<forall>amax. 0 \<le> amax \<longrightarrow> clamp_min amax 0 = amax"
    by blast
  from g3 have g4: "filter is_postprocess gpost = [PostprocessAmax ''*input_quantizer'' (0.01 * 448)]"
    by simp
  have 1: "\<exists>model' table' pre recipe post.
      quantize ?fp8 (QUANT_CFG_CHOICES sample_mtq) 0 (sample_model [NemotronConfig])
        = Inr (model', table', pre @ [MtqQuantize recipe] @ post)
      \<and> (\<forall>e \<in> set pre. \<not> is_postprocess e)
      \<and> filter is_postprocess post = [PostprocessAmax ''*input_quantizer'' (0.01 * 448)]"
    by (intro exI conjI) (rule g1, rule g2, rule g4)
  from l obtain lm lt lpre lrecipe lpost where
    l1: "quantize ?fp8 (QUANT_CFG_CHOICES sample_mtq) 0 (sample_model [LlamaConfig])
           = Inr (lm, lt, lpre @ [MtqQuantize lrecipe] @ lpost)" and
    l2: "\<forall>e \<in> set lpre. \<not> is_postprocess e" and
    l3: "''llama'' \<noteq> ''gptnext'' \<longrightarrow> filter is_postprocess lpost = []"
    by blast
  from l3 have l4: "filter is_postprocess lpost = []"
    by simp
  have 2: "\<exists>model' table' pre recipe post.
      quantize ?fp8 (QUANT_CFG_CHOICES sample_mtq) 0 (sample_model [LlamaConfig])
        = Inr (model', table', pre @ [MtqQuantize recipe] @ post)
      \<and> (\<forall>e \<in> set pre. \<not> is_postprocess e)
      \<and> filter is_postprocess post = []"
    by (intro exI conjI) (rule l1, rule l2, rule l4)
  from g5 have 3: "clamp_min 3 0 = 3" by simp
  from 1 2 3 show ?thesis by blast
qed

text \<open>
  C9. The default \<open>QuantizationConfig\<close> has \<open>enable_kv_cache\<close> true, not \<open>None\<close>. With
  that value the enable flag of the output quantizer in the recipe is true for every
  algorithm and every resolved decoder type; the automatic choice is not taken.
\<close>

theorem default_config_kv_cache:
  assumes "enable_kv_cache (quantization_config self) = enable_kv_cache default_QuantizationConfig"
    and "algorithm (quantization_config self) = Some alg"
    and "get_decoder_type self (mconfig (get_unwrapped_mcore_model model)) = Inr (dec, warnings)"
    and "table alg = Some template"
    and "recipe_shape_ok alg template"
  shows "enable_kv_cache default_QuantizationConfig = Some True
    \<and> (\<exists>model' table' events recipe.
      quantize self table rank model = Inr (model', table', events)
      \<and> MtqQuantize recipe \<in> set events
      \<and> get_path recipe [KStr ''quant_cfg'', KStr ''*output_quantizer'', KStr ''enable'']
          = Inr (VBool True))"
proof -
  have d: "enable_kv_cache default_QuantizationConfig = Some True"
    by (simp add: default_QuantizationConfig_def)
  from quantize_returns [of self alg model dec warnings table template rank, OF assms(2-5)]
  obtain recipe pre where
    b: "build_recipe (quantization_config self) table alg dec = Inr (recipe, table(alg \<mapsto> recipe))" and
    q: "quantize self table rank model =
          Inr (setup_model self model, table(alg \<mapsto> recipe),
               pre @ [MtqQuantize recipe]
               @ ((if dec = ''gptnext''
                   then [PostprocessAmax ''*input_quantizer'' (clamp_threshold alg)] else [])
                  @ (if rank = 0 then [PrintQuantSummary] else [])))"
    by blast
  have mem: "MtqQuantize recipe \<in> set (pre @ [MtqQuantize recipe]
               @ ((if dec = ''gptnext''
                   then [PostprocessAmax ''*input_quantizer'' (clamp_threshold alg)] else [])
                  @ (if rank = 0 then [PrintQuantSummary] else [])))"
    by simp
  have flag: "get_path recipe [KStr ''quant_cfg'', KStr ''*output_quantizer'', KStr ''enable'']
      = Inr (VBool True)"
    using build_recipe_enable [OF b] assms(1) d by (simp add: kv_cache_enabled_def)
  show ?thesis
    by (intro exI conjI) (rule d, rule q, rule mem, rule flag)
qed

theorem default_config_kv_cache_witness:
  "enable_kv_cache default_QuantizationConfig = Some True
    \<and> (\<exists>model' table' events recipe.
      quantize (sample_quantizer (default_QuantizationConfig\<lparr>algorithm := Some ''int8_sq''\<rparr>))
        (QUANT_CFG_CHOICES sample_mtq) 0 (sample_model [NemotronConfig])
        = Inr (model', table', events)
      \<and> MtqQuantize recipe \<in> set events
      \<and> get_path recipe [KStr ''quant_cfg'', KStr ''*output_quantizer'', KStr ''enable'']
          = Inr (VBool True))"
proof -
  let ?q = "sample_quantizer (default_QuantizationConfig\<lparr>algorithm := Some ''int8_sq''\<rparr>)"
  have e: "enable_kv_cache (quantization_config ?q) = enable_kv_cache default_QuantizationConfig"
    by (simp add: sample_algorithm)
  have a: "algorithm (quantization_config ?q) = Some ''int8_sq''"
    by (simp add: sample_algorithm)
  show ?thesis
    by (rule default_config_kv_cache [of ?q "''int8_sq''" "sample_model [NemotronConfig]"
          "''gptnext''" "[]" "QUANT_CFG_CHOICES sample_mtq" "INT8_SMOOTHQUANT_CFG sample_mtq" 0,
          OF e a sample_decoder_type(1) sample_table(2) sample_shape(2)])
qed

lemma set_block_size_exact:
  assumes "set_block_size w bs = Inr w'"
  shows "\<exists>b b'. py_getitem w (KStr ''block_sizes'') = Inr b
           \<and> py_setitem b (KInt (- 1)) (VInt bs) = Inr b'
           \<and> py_setitem w (KStr ''block_sizes'') b' = Inr w'"
proof -
  from assms obtain b b' where
    g: "py_getitem w (KStr ''block_sizes'') = Inr b" and
    s: "py_setitem b (KInt (- 1)) (VInt bs) = Inr b'" and
    w': "w' = put_child w (KStr ''block_sizes'') b'"
    by (auto simp: set_block_size_def split: sum.splits)
  from getitem_str_key [OF g] obtain d where "w = VDict d" by blast
  with w' have "py_setitem w (KStr ''block_sizes'') b' = Inr w'" by simp
  with g s show ?thesis by blast
qed

lemma set_block_size_keeps_shape:
  assumes "set_block_size w bs = Inr w'"
  shows "block_sizes_ok w'"
proof -
  from set_block_size_exact [OF assms] obtain b b' where
    g: "py_getitem w (KStr ''block_sizes'') = Inr b" and
    s: "py_setitem b (KInt (- 1)) (VInt bs) = Inr b'" and
    w': "py_setitem w (KStr ''block_sizes'') b' = Inr w'"
    by blast
  from setitem_then_getitem [OF w'] have g': "py_getitem w' (KStr ''block_sizes'') = Inr b'" .
  have "(\<exists>d. b' = VDict d) \<or> (\<exists>xs. b' = VList xs \<and> xs \<noteq> [])"
  proof (cases b)
    case (VDict d)
    with s show ?thesis by auto
  next
    case (VList xs)
    with s obtain j where "py_index xs (- 1) = Inr j" "b' = VList (xs[j := VInt bs])"
      by (auto split: sum.splits)
    with py_index_less [of xs "- 1" j] show ?thesis by auto
  qed (use s in auto)
  with g' show ?thesis by (auto simp: block_sizes_ok_def)
qed

lemma awq_step_exact:
  assumes "awq_step r bs = Inr r'"
  shows "\<exists>d di w w'.
      r = VDict d \<and> map_of d (KStr ''quant_cfg'') = Some (VDict di)
      \<and> map_of di (KStr ''*weight_quantizer'') = Some w
      \<and> r' = VDict (AList.update (KStr ''quant_cfg'')
                (VDict (AList.update (KStr ''*weight_quantizer'') w' di)) d)
      \<and> ((\<exists>w0 ws w0'. w = VList (w0 # ws) \<and> set_block_size w0 bs = Inr w0'
              \<and> w' = VList (w0' # ws))
          \<or> ((\<forall>ws. w \<noteq> VList ws) \<and> set_block_size w bs = Inr w'))"
proof -
  from assms obtain inner w where
    g: "py_getitem r (KStr ''quant_cfg'') = Inr inner" and
    gw: "py_getitem inner (KStr ''*weight_quantizer'') = Inr w"
    by (auto simp: awq_step_def split: sum.splits)
  from getitem_str_key [OF g] obtain d where
    d: "r = VDict d" "map_of d (KStr ''quant_cfg'') = Some inner" by blast
  from getitem_str_key [OF gw] obtain di where
    di: "inner = VDict di" "map_of di (KStr ''*weight_quantizer'') = Some w" by blast
  show ?thesis
  proof (cases "\<exists>ws. w = VList ws")
    case True
    then obtain ws where ws: "w = VList ws" by blast
    with assms g gw obtain w0 w0' where
      g0: "py_getitem (VList ws) (KInt 0) = Inr w0" and
      sb: "set_block_size w0 bs = Inr w0'" and
      r': "r' = put_child r (KStr ''quant_cfg'')
                 (put_child inner (KStr ''*weight_quantizer'') (put_child (VList ws) (KInt 0) w0'))"
      by (auto simp: awq_step_def split: sum.splits)
    from g0 obtain rest where c: "ws = w0 # rest"
      by (cases ws) (auto simp: py_index_def)
    then have "put_child (VList ws) (KInt 0) w0' = VList (w0' # rest)"
      by (simp add: py_index_def)
    with r' d di have "r' = VDict (AList.update (KStr ''quant_cfg'')
                (VDict (AList.update (KStr ''*weight_quantizer'') (VList (w0' # rest)) di)) d)"
      by simp
    with d di ws c sb show ?thesis by blast
  next
    case False
    with assms g gw obtain w' where
      sb: "set_block_size w bs = Inr w'" and
      r': "r' = put_child r (KStr ''quant_cfg'') (put_child inner (KStr ''*weight_quantizer'') w')"
      by (cases w) (auto simp: awq_step_def split: sum.splits)
    from r' d di have "r' = VDict (AList.update (KStr ''quant_cfg'')
                (VDict (AList.update (KStr ''*weight_quantizer'') w' di)) d)"
      by simp
    with d di False sb show ?thesis by blast
  qed
qed

lemma awq_step_reads:
  assumes "awq_step r bs = Inr r'"
  shows "k \<noteq> KStr ''quant_cfg'' \<Longrightarrow> py_getitem r' k = py_getitem r k"
    and "k \<noteq> KStr ''*weight_quantizer'' \<Longrightarrow>
         get_path r' (KStr ''quant_cfg'' # k # ks) = get_path r (KStr ''quant_cfg'' # k # ks)"
  using awq_step_exact [OF assms] by (auto simp: update_conv')

lemma awq_step_block_size_assigned:
  assumes "awq_step r bs = Inr r'"
  shows "block_size_assigned bs r r'"
proof -
  from awq_step_exact [OF assms] obtain d di w w' where
    r: "r = VDict d" "map_of d (KStr ''quant_cfg'') = Some (VDict di)"
       "map_of di (KStr ''*weight_quantizer'') = Some w" and
    r': "r' = VDict (AList.update (KStr ''quant_cfg'')
                (VDict (AList.update (KStr ''*weight_quantizer'') w' di)) d)" and
    c: "(\<exists>w0 ws w0'. w = VList (w0 # ws) \<and> set_block_size w0 bs = Inr w0'
              \<and> w' = VList (w0' # ws))
          \<or> ((\<forall>ws. w \<noteq> VList ws) \<and> set_block_size w bs = Inr w')"
    by blast
  from r have pb: "get_path r [KStr ''quant_cfg'', KStr ''*weight_quantizer''] = Inr w"
    by simp
  from r' have pa: "get_path r' [KStr ''quant_cfg'', KStr ''*weight_quantizer''] = Inr w'"
    by (simp add: update_conv')
  from c show ?thesis
  proof
    assume "\<exists>w0 ws w0'. w = VList (w0 # ws) \<and> set_block_size w0 bs = Inr w0'
              \<and> w' = VList (w0' # ws)"
    then obtain w0 ws w0' where
      l: "w = VList (w0 # ws)" "set_block_size w0 bs = Inr w0'" "w' = VList (w0' # ws)"
      by blast
    from set_block_size_exact [OF l(2)] obtain b b' where
      e: "py_getitem w0 (KStr ''block_sizes'') = Inr b"
         "py_setitem b (KInt (- 1)) (VInt bs) = Inr b'"
         "py_setitem w0 (KStr ''block_sizes'') b' = Inr w0'"
      by blast
    from pb l(1) have sb: "selected_weight_quantizer r = Inr w0"
      by (simp add: selected_weight_quantizer_def py_index_def)
    from pa l(3) have sa: "selected_weight_quantizer r' = Inr w0'"
      by (simp add: selected_weight_quantizer_def py_index_def)
    from pb pa l(1,3) have
      "(case get_path r [KStr ''quant_cfg'', KStr ''*weight_quantizer''] of
              Inr (VList ws) \<Rightarrow>
                get_path r' [KStr ''quant_cfg'', KStr ''*weight_quantizer'']
                  = Inr (VList (w0' # tl ws))
            | other \<Rightarrow>
                get_path r' [KStr ''quant_cfg'', KStr ''*weight_quantizer''] = Inr w0')"
      by simp
    with sb sa e show ?thesis
      unfolding block_size_assigned_def by blast
  next
    assume n: "(\<forall>ws. w \<noteq> VList ws) \<and> set_block_size w bs = Inr w'"
    from set_block_size_exact [of w bs w'] n obtain b b' where
      e: "py_getitem w (KStr ''block_sizes'') = Inr b"
         "py_setitem b (KInt (- 1)) (VInt bs) = Inr b'"
         "py_setitem w (KStr ''block_sizes'') b' = Inr w'"
      by blast
    from set_block_size_is_dict [of w bs w'] n obtain dw where dw: "w' = VDict dw" by blast
    from pb n have sb: "selected_weight_quantizer r = Inr w"
      by (cases w) (simp_all add: selected_weight_quantizer_def)
    from pa dw have sa: "selected_weight_quantizer r' = Inr w'"
      by (simp add: selected_weight_quantizer_def)
    from pb pa n have
      "(case get_path r [KStr ''quant_cfg'', KStr ''*weight_quantizer''] of
              Inr (VList ws) \<Rightarrow>
                get_path r' [KStr ''quant_cfg'', KStr ''*weight_quantizer'']
                  = Inr (VList (w' # tl ws))
            | other \<Rightarrow>
                get_path r' [KStr ''quant_cfg'', KStr ''*weight_quantizer''] = Inr w')"
      by (cases w) simp_all
    with sb sa e show ?thesis
      unfolding block_size_assigned_def by blast
  qed
qed

lemma block_size_assigned_cong:
  assumes "block_size_assigned bs r r1"
    and "get_path r2 [KStr ''quant_cfg'', KStr ''*weight_quantizer'']
         = get_path r1 [KStr ''quant_cfg'', KStr ''*weight_quantizer'']"
  shows "block_size_assigned bs r r2"
  using assms(1) unfolding block_size_assigned_def selected_weight_quantizer_def assms(2) .

lemma weight_quantizer_ok_cong:
  "py_getitem inner' (KStr ''*weight_quantizer'') = py_getitem inner (KStr ''*weight_quantizer'')
   \<Longrightarrow> weight_quantizer_ok inner' = weight_quantizer_ok inner"
  by (simp add: weight_quantizer_ok_def)

lemma awq_step_keeps_shape:
  assumes "awq_step r bs = Inr r'"
  shows "\<exists>inner. py_getitem r' (KStr ''quant_cfg'') = Inr (VDict inner)
            \<and> weight_quantizer_ok (VDict inner)"
proof -
  from awq_step_exact [OF assms] obtain d di w w' where
    r': "r' = VDict (AList.update (KStr ''quant_cfg'')
                (VDict (AList.update (KStr ''*weight_quantizer'') w' di)) d)" and
    c: "(\<exists>w0 ws w0'. w = VList (w0 # ws) \<and> set_block_size w0 bs = Inr w0'
              \<and> w' = VList (w0' # ws))
          \<or> ((\<forall>ws. w \<noteq> VList ws) \<and> set_block_size w bs = Inr w')"
    by blast
  let ?inner = "AList.update (KStr ''*weight_quantizer'') w' di"
  from r' have g: "py_getitem r' (KStr ''quant_cfg'') = Inr (VDict ?inner)"
    by (simp add: update_conv')
  have gw: "py_getitem (VDict ?inner) (KStr ''*weight_quantizer'') = Inr w'"
    by (simp add: update_conv')
  from c have "weight_quantizer_ok (VDict ?inner)"
  proof
    assume "\<exists>w0 ws w0'. w = VList (w0 # ws) \<and> set_block_size w0 bs = Inr w0'
              \<and> w' = VList (w0' # ws)"
    then obtain w0 ws w0' where l: "set_block_size w0 bs = Inr w0'" "w' = VList (w0' # ws)"
      by blast
    from set_block_size_keeps_shape [OF l(1)] gw l(2) show ?thesis
      by (simp add: weight_quantizer_ok_def)
  next
    assume n: "(\<forall>ws. w \<noteq> VList ws) \<and> set_block_size w bs = Inr w'"
    from set_block_size_is_dict [of w bs w'] n obtain dw where dw: "w' = VDict dw" by blast
    from set_block_size_keeps_shape [of w bs w'] n have "block_sizes_ok w'" by blast
    with gw dw show ?thesis
      by (simp add: weight_quantizer_ok_def)
  qed
  with g show ?thesis by blast
qed

lemma build_recipe_shape:
  assumes "build_recipe q table alg dec = Inr (recipe, table')"
  shows "recipe_shape_ok alg recipe"
proof -
  from assms obtain template r1 r2 where
    t: "table alg = Some template" and
    s1: "(if str_contains ''awq'' alg then awq_step template (awq_block_size q) else Inr template) = Inr r1" and
    s2: "set_output_quantizer r1 alg (kv_cache_enabled (enable_kv_cache q) alg dec) = Inr r2" and
    s3: "(if alg = ''int8_sq'' then set_smoothquant r2 (sq_alpha q) else Inr r2) = Inr recipe"
    by (rule build_recipe_steps)
  let ?oq = "output_quantizer alg (kv_cache_enabled (enable_kv_cache q) alg dec)"
  from set_output_quantizer_result [OF s2] obtain d1 inner1 where
    r1: "r1 = VDict d1" "map_of d1 (KStr ''quant_cfg'') = Some (VDict inner1)" and
    r2: "r2 = VDict (AList.update (KStr ''quant_cfg'')
                  (VDict (AList.update (KStr ''*output_quantizer'') ?oq inner1)) d1)"
    by blast
  let ?inner2 = "AList.update (KStr ''*output_quantizer'') ?oq inner1"
  from r2 have g2: "py_getitem r2 (KStr ''quant_cfg'') = Inr (VDict ?inner2)"
    by (simp add: update_conv')
  from smoothquant_keeps_quant_cfg [OF s3, of "[]"] g2
  have g: "py_getitem recipe (KStr ''quant_cfg'') = Inr (VDict ?inner2)"
    by (simp split: sum.splits)
  have w: "weight_quantizer_ok (VDict ?inner2) = weight_quantizer_ok (VDict inner1)"
    by (rule weight_quantizer_ok_cong) (simp add: update_conv')
  have "str_contains ''awq'' alg \<longrightarrow> weight_quantizer_ok (VDict inner1)"
  proof
    assume "str_contains ''awq'' alg"
    with s1 have "awq_step template (awq_block_size q) = Inr r1" by simp
    from awq_step_keeps_shape [OF this] r1 show "weight_quantizer_ok (VDict inner1)"
      by simp
  qed
  with g w show ?thesis by (simp add: recipe_shape_ok_def)
qed

lemma build_recipe_assigned:
  assumes "build_recipe q table alg dec = Inr (recipe, table')"
    and "table alg = Some template"
  shows "assigned_in_place alg q dec template recipe"
proof -
  from assms(1) obtain template' r1 r2 where
    t: "table alg = Some template'" and
    s1: "(if str_contains ''awq'' alg then awq_step template' (awq_block_size q) else Inr template') = Inr r1" and
    s2: "set_output_quantizer r1 alg (kv_cache_enabled (enable_kv_cache q) alg dec) = Inr r2" and
    s3: "(if alg = ''int8_sq'' then set_smoothquant r2 (sq_alpha q) else Inr r2) = Inr recipe"
    by (rule build_recipe_steps)
  from t assms(2) have tt: "template' = template" by simp
  have f1: "py_getitem r1 k = py_getitem template k" if "k \<noteq> KStr ''quant_cfg''" for k
  proof (cases "str_contains ''awq'' alg")
    case True
    with s1 tt have "awq_step template (awq_block_size q) = Inr r1" by simp
    from awq_step_reads(1) [OF this that] show ?thesis .
  next
    case False
    with s1 tt show ?thesis by simp
  qed
  have f2: "get_path r1 (KStr ''quant_cfg'' # k # ks) = get_path template (KStr ''quant_cfg'' # k # ks)"
    if "k \<noteq> KStr ''*weight_quantizer''" for k ks
  proof (cases "str_contains ''awq'' alg")
    case True
    with s1 tt have "awq_step template (awq_block_size q) = Inr r1" by simp
    from awq_step_reads(2) [OF this that] show ?thesis .
  next
    case False
    with s1 tt show ?thesis by simp
  qed
  have g1: "py_getitem r2 k = py_getitem r1 k" if "k \<noteq> KStr ''quant_cfg''" for k
    by (rule set_output_quantizer_reads(3) [OF s2 that])
  have g2: "get_path r2 (KStr ''quant_cfg'' # k # ks) = get_path r1 (KStr ''quant_cfg'' # k # ks)"
    if "k \<noteq> KStr ''*output_quantizer''" for k ks
    by (rule set_output_quantizer_reads(2) [OF s2 that])
  have h1: "py_getitem recipe k = py_getitem r2 k" if "k \<noteq> KStr ''algorithm''" for k
  proof (cases "alg = ''int8_sq''")
    case True
    with s3 have "set_smoothquant r2 (sq_alpha q) = Inr recipe" by simp
    from set_smoothquant_reads(1) [OF this that] show ?thesis .
  next
    case False
    with s3 show ?thesis by simp
  qed
  have h2: "get_path recipe (KStr ''quant_cfg'' # ks) = get_path r2 (KStr ''quant_cfg'' # ks)" for ks
    by (rule smoothquant_keeps_quant_cfg [OF s3])
  have c1: "\<forall>k. k \<noteq> KStr ''quant_cfg'' \<and> k \<noteq> KStr ''algorithm'' \<longrightarrow>
           py_getitem recipe k = py_getitem template k"
    using f1 g1 h1 by simp
  have c2: "if alg = ''int8_sq''
          then py_getitem recipe (KStr ''algorithm'')
                 = Inr (VDict [(KStr ''method'', VStr ''smoothquant''),
                               (KStr ''alpha'', VFloat (sq_alpha q))])
          else py_getitem recipe (KStr ''algorithm'') = py_getitem template (KStr ''algorithm'')"
  proof (cases "alg = ''int8_sq''")
    case True
    with s3 have "set_smoothquant r2 (sq_alpha q) = Inr recipe" by simp
    from set_smoothquant_reads(2) [OF this] True show ?thesis by simp
  next
    case False
    with s3 have "recipe = r2" by simp
    with g1 [of "KStr ''algorithm''"] f1 [of "KStr ''algorithm''"] False show ?thesis by simp
  qed
  have c3: "\<forall>k ks. k \<noteq> KStr ''*output_quantizer'' \<and> k \<noteq> KStr ''*weight_quantizer'' \<longrightarrow>
           get_path recipe (KStr ''quant_cfg'' # k # ks)
             = get_path template (KStr ''quant_cfg'' # k # ks)"
    using f2 g2 h2 by simp
  have c4: "get_path recipe [KStr ''quant_cfg'', KStr ''*output_quantizer'']
           = Inr (VDict [(KStr ''num_bits'',
                            if alg = ''int8_sq'' then VInt 8 else VTuple [VInt 4, VInt 3]),
                         (KStr ''axis'', VNone),
                         (KStr ''enable'',
                            VBool (case enable_kv_cache q of
                                     None \<Rightarrow> \<not> sublist ''int8'' alg \<and> dec \<noteq> ''gptnext''
                                   | Some b \<Rightarrow> b))])"
    unfolding build_recipe_output [OF assms(1)]
    by (simp add: output_quantizer_def kv_cache_enabled_def str_contains_sublist
             split: option.split)
  have wq: "get_path recipe [KStr ''quant_cfg'', KStr ''*weight_quantizer'']
      = get_path r1 [KStr ''quant_cfg'', KStr ''*weight_quantizer'']"
    using h2 [of "[KStr ''*weight_quantizer'']"] g2 [of "KStr ''*weight_quantizer''" "[]"]
    by simp
  have c5: "if sublist ''awq'' alg
          then block_size_assigned (awq_block_size q) template recipe
          else get_path recipe [KStr ''quant_cfg'', KStr ''*weight_quantizer'']
                 = get_path template [KStr ''quant_cfg'', KStr ''*weight_quantizer'']"
  proof (cases "str_contains ''awq'' alg")
    case True
    with s1 tt have "awq_step template (awq_block_size q) = Inr r1" by simp
    from block_size_assigned_cong [OF awq_step_block_size_assigned [OF this] wq] True
    show ?thesis by (simp add: str_contains_sublist)
  next
    case False
    with s1 tt have "r1 = template" by simp
    with wq False show ?thesis by (simp add: str_contains_sublist)
  qed
  from c1 c2 c3 c4 c5 show ?thesis
    unfolding assigned_in_place_def by (intro conjI)
qed

lemma quantize_in_place:
  assumes "algorithm (quantization_config self) = Some alg"
    and "get_decoder_type self (mconfig (get_unwrapped_mcore_model model)) = Inr (dec, warnings)"
    and "table alg = Some template"
    and "recipe_shape_ok alg template"
  shows "\<exists>model' events recipe.
      quantize self table rank model = Inr (model', table(alg \<mapsto> recipe), events)
      \<and> MtqQuantize recipe \<in> set events
      \<and> assigned_in_place alg (quantization_config self) dec template recipe
      \<and> recipe_shape_ok alg recipe"
proof -
  from quantize_returns [of self alg model dec warnings table template rank, OF assms]
  obtain recipe pre where
    b: "build_recipe (quantization_config self) table alg dec = Inr (recipe, table(alg \<mapsto> recipe))" and
    q: "quantize self table rank model =
          Inr (setup_model self model, table(alg \<mapsto> recipe),
               pre @ [MtqQuantize recipe]
               @ ((if dec = ''gptnext''
                   then [PostprocessAmax ''*input_quantizer'' (clamp_threshold alg)] else [])
                  @ (if rank = 0 then [PrintQuantSummary] else [])))"
    by blast
  have mem: "MtqQuantize recipe \<in> set (pre @ [MtqQuantize recipe]
               @ ((if dec = ''gptnext''
                   then [PostprocessAmax ''*input_quantizer'' (clamp_threshold alg)] else [])
                  @ (if rank = 0 then [PrintQuantSummary] else [])))"
    by simp
  show ?thesis
    by (intro exI conjI)
       (rule q, rule mem, rule build_recipe_assigned [OF b assms(3)], rule build_recipe_shape [OF b])
qed

text \<open>
  Two calls from the same table that differ in an explicit \<open>enable_kv_cache\<close> leave
  different entries, whatever the template: no template is left unchanged by both.
\<close>

lemma quantize_entry_depends_on_call:
  assumes "algorithm (quantization_config self) = Some alg"
    and "algorithm (quantization_config self') = Some alg"
    and "enable_kv_cache (quantization_config self) = Some True"
    and "enable_kv_cache (quantization_config self') = Some False"
    and "quantize self table rank model = Inr (m1, t1, ev1)"
    and "quantize self' table rank model = Inr (m2, t2, ev2)"
  shows "t1 alg \<noteq> t2 alg"
proof -
  from assms(1,5) obtain dec r1 where
    b1: "build_recipe (quantization_config self) table alg dec = Inr (r1, t1)"
    by (auto simp: quantize_def Let_def split: sum.splits prod.splits)
  from assms(2,6) obtain dec' r2 where
    b2: "build_recipe (quantization_config self') table alg dec' = Inr (r2, t2)"
    by (auto simp: quantize_def Let_def split: sum.splits prod.splits)
  from build_recipe_enable [OF b1] assms(3)
  have e1: "get_path r1 [KStr ''quant_cfg'', KStr ''*output_quantizer'', KStr ''enable'']
      = Inr (VBool True)"
    by (simp add: kv_cache_enabled_def)
  from build_recipe_enable [OF b2] assms(4)
  have e2: "get_path r2 [KStr ''quant_cfg'', KStr ''*output_quantizer'', KStr ''enable'']
      = Inr (VBool False)"
    by (simp add: kv_cache_enabled_def)
  from e1 e2 have "r1 \<noteq> r2" by auto
  with build_recipe_table [OF b1] build_recipe_table [OF b2] show ?thesis by simp
qed

text \<open>
  C2, as the code has it. \<^verbatim>\<open>quantize\<close> does not copy the template. The recipe it hands
  to the toolkit is the entry of the table with this call's assignments made in it: every
  key that is not assigned reads as in the entry before the call, the output quantizer is
  the one of this call, the \<^verbatim>\<open>"algorithm"\<close> key is reassigned for \<^verbatim>\<open>int8_sq\<close> only and
  the last block size of the weight quantizer for an \<^verbatim>\<open>awq\<close> algorithm only. After a call
  that returns, the entry of the algorithm in the table is that recipe and the entries of
  the other algorithms are as before. The entry keeps the shape \<^verbatim>\<open>quantize\<close> needs, so a
  repeated call on the same algorithm returns as well, and its recipe is the entry the
  previous call left, with the assignments of the repeated call made in it.
\<close>

theorem quantize_assigns_table_entry:
  assumes "algorithm (quantization_config self) = Some alg"
    and "get_decoder_type self (mconfig (get_unwrapped_mcore_model model)) = Inr (dec, warnings)"
    and "table alg = Some template"
    and "recipe_shape_ok alg template"
  shows "\<exists>model' table' events recipe.
      quantize self table rank model = Inr (model', table', events)
      \<and> MtqQuantize recipe \<in> set events
      \<and> table' alg = Some recipe
      \<and> (\<forall>other. other \<noteq> alg \<longrightarrow> table' other = table other)
      \<and> assigned_in_place alg (quantization_config self) dec template recipe
      \<and> recipe_shape_ok alg recipe
      \<and> (algorithm (quantization_config self_b) = Some alg \<and>
          get_decoder_type self_b (mconfig (get_unwrapped_mcore_model model_b))
            = Inr (dec_b, warnings_b) \<longrightarrow>
          (\<exists>model_b' table2 events2 recipe2.
             quantize self_b table' rank_b model_b = Inr (model_b', table2, events2)
             \<and> MtqQuantize recipe2 \<in> set events2
             \<and> table2 alg = Some recipe2
             \<and> (\<forall>other. other \<noteq> alg \<longrightarrow> table2 other = table other)
             \<and> assigned_in_place alg (quantization_config self_b) dec_b recipe recipe2
             \<and> recipe_shape_ok alg recipe2))"
proof -
  from quantize_in_place [of self alg model dec warnings table template rank, OF assms]
  obtain model' events recipe where
    q: "quantize self table rank model = Inr (model', table(alg \<mapsto> recipe), events)" and
    m: "MtqQuantize recipe \<in> set events" and
    a: "assigned_in_place alg (quantization_config self) dec template recipe" and
    s: "recipe_shape_ok alg recipe"
    by blast
  let ?t = "table(alg \<mapsto> recipe)"
  have entry: "?t alg = Some recipe" by simp
  have others: "\<forall>other. other \<noteq> alg \<longrightarrow> ?t other = table other" by simp
  have second: "algorithm (quantization_config self_b) = Some alg \<and>
          get_decoder_type self_b (mconfig (get_unwrapped_mcore_model model_b))
            = Inr (dec_b, warnings_b) \<longrightarrow>
          (\<exists>model_b' table2 events2 recipe2.
             quantize self_b ?t rank_b model_b = Inr (model_b', table2, events2)
             \<and> MtqQuantize recipe2 \<in> set events2
             \<and> table2 alg = Some recipe2
             \<and> (\<forall>other. other \<noteq> alg \<longrightarrow> table2 other = table other)
             \<and> assigned_in_place alg (quantization_config self_b) dec_b recipe recipe2
             \<and> recipe_shape_ok alg recipe2)"
  proof
    assume h: "algorithm (quantization_config self_b) = Some alg \<and>
          get_decoder_type self_b (mconfig (get_unwrapped_mcore_model model_b))
            = Inr (dec_b, warnings_b)"
    from quantize_in_place [of self_b alg model_b dec_b warnings_b ?t recipe rank_b] h entry s
    obtain model_b' events2 recipe2 where
      q2: "quantize self_b ?t rank_b model_b = Inr (model_b', ?t(alg \<mapsto> recipe2), events2)" and
      m2: "MtqQuantize recipe2 \<in> set events2" and
      a2: "assigned_in_place alg (quantization_config self_b) dec_b recipe recipe2" and
      s2: "recipe_shape_ok alg recipe2"
      by blast
    have e2: "(?t(alg \<mapsto> recipe2)) alg = Some recipe2" by simp
    have o2: "\<forall>other. other \<noteq> alg \<longrightarrow> (?t(alg \<mapsto> recipe2)) other = table other" by simp
    show "\<exists>model_b' table2 events2 recipe2.
             quantize self_b ?t rank_b model_b = Inr (model_b', table2, events2)
             \<and> MtqQuantize recipe2 \<in> set events2
             \<and> table2 alg = Some recipe2
             \<and> (\<forall>other. other \<noteq> alg \<longrightarrow> table2 other = table other)
             \<and> assigned_in_place alg (quantization_config self_b) dec_b recipe recipe2
             \<and> recipe_shape_ok alg recipe2"
      by (intro exI conjI) (rule q2, rule m2, rule e2, rule o2, rule a2, rule s2)
  qed
  show ?thesis
    by (intro exI conjI) (rule q, rule m, rule entry, rule others, rule a, rule s, rule second)
qed

theorem quantize_assigns_table_entry_witness:
  "\<exists>model' table' events recipe.
      quantize (sample_quantizer
                  (default_QuantizationConfig\<lparr>algorithm := Some ''w4a8_awq'', awq_block_size := 64\<rparr>))
        (QUANT_CFG_CHOICES sample_mtq) 0 (sample_model [LlamaConfig])
        = Inr (model', table', events)
      \<and> MtqQuantize recipe \<in> set events
      \<and> table' ''w4a8_awq'' = Some recipe
      \<and> (\<forall>other. other \<noteq> ''w4a8_awq'' \<longrightarrow> table' other = QUANT_CFG_CHOICES sample_mtq other)
      \<and> assigned_in_place ''w4a8_awq''
           (default_QuantizationConfig\<lparr>algorithm := Some ''w4a8_awq'', awq_block_size := 64\<rparr>)
           ''llama'' (W4A8_AWQ_BETA_CFG sample_mtq) recipe
      \<and> recipe_shape_ok ''w4a8_awq'' recipe
      \<and> py_getitem recipe (KStr ''algorithm'') = Inr (VStr ''awq_lite'')
      \<and> (\<exists>model_b' table2 events2 recipe2.
             quantize (sample_quantizer
                         (default_QuantizationConfig\<lparr>algorithm := Some ''w4a8_awq'',
                            awq_block_size := 32, enable_kv_cache := Some False\<rparr>))
               table' 0 (sample_model [LlamaConfig])
               = Inr (model_b', table2, events2)
             \<and> MtqQuantize recipe2 \<in> set events2
             \<and> table2 ''w4a8_awq'' = Some recipe2
             \<and> assigned_in_place ''w4a8_awq''
                  (default_QuantizationConfig\<lparr>algorithm := Some ''w4a8_awq'',
                     awq_block_size := 32, enable_kv_cache := Some False\<rparr>)
                  ''llama'' recipe recipe2
             \<and> recipe_shape_ok ''w4a8_awq'' recipe2)"
proof -
  let ?c1 = "default_QuantizationConfig\<lparr>algorithm := Some ''w4a8_awq'', awq_block_size := 64\<rparr>"
  let ?c2 = "default_QuantizationConfig\<lparr>algorithm := Some ''w4a8_awq'',
                            awq_block_size := 32, enable_kv_cache := Some False\<rparr>"
  let ?m = "sample_model [LlamaConfig]"
  have a1: "algorithm (quantization_config (sample_quantizer ?c1)) = Some ''w4a8_awq''"
    by (simp add: sample_algorithm)
  have a2: "algorithm (quantization_config (sample_quantizer ?c2)) = Some ''w4a8_awq''"
    by (simp add: sample_algorithm)
  have c: "quantization_config (sample_quantizer ?c1) = ?c1"
          "quantization_config (sample_quantizer ?c2) = ?c2"
    by (simp_all add: sample_quantizer_def)
  from quantize_assigns_table_entry
    [where self = "sample_quantizer ?c1" and alg = "''w4a8_awq''" and model = ?m
       and dec = "''llama''" and warnings = "[]" and table = "QUANT_CFG_CHOICES sample_mtq"
       and template = "W4A8_AWQ_BETA_CFG sample_mtq" and rank = 0
       and self_b = "sample_quantizer ?c2" and model_b = ?m and dec_b = "''llama''"
       and warnings_b = "[]" and rank_b = 0,
     OF a1 sample_decoder_type(2) sample_table(3) sample_shape(3)]
  obtain model' table' events recipe where
    q: "quantize (sample_quantizer ?c1) (QUANT_CFG_CHOICES sample_mtq) 0 ?m
          = Inr (model', table', events)" and
    m: "MtqQuantize recipe \<in> set events" and
    e: "table' ''w4a8_awq'' = Some recipe" and
    o: "\<forall>other. other \<noteq> ''w4a8_awq'' \<longrightarrow> table' other = QUANT_CFG_CHOICES sample_mtq other" and
    a: "assigned_in_place ''w4a8_awq'' (quantization_config (sample_quantizer ?c1))
          ''llama'' (W4A8_AWQ_BETA_CFG sample_mtq) recipe" and
    s: "recipe_shape_ok ''w4a8_awq'' recipe" and
    second: "algorithm (quantization_config (sample_quantizer ?c2)) = Some ''w4a8_awq'' \<and>
          get_decoder_type (sample_quantizer ?c2) (mconfig (get_unwrapped_mcore_model ?m))
            = Inr (''llama'', []) \<longrightarrow>
          (\<exists>model_b' table2 events2 recipe2.
             quantize (sample_quantizer ?c2) table' 0 ?m = Inr (model_b', table2, events2)
             \<and> MtqQuantize recipe2 \<in> set events2
             \<and> table2 ''w4a8_awq'' = Some recipe2
             \<and> (\<forall>other. other \<noteq> ''w4a8_awq'' \<longrightarrow> table2 other = QUANT_CFG_CHOICES sample_mtq other)
             \<and> assigned_in_place ''w4a8_awq'' (quantization_config (sample_quantizer ?c2))
                  ''llama'' recipe recipe2
             \<and> recipe_shape_ok ''w4a8_awq'' recipe2)"
    by (elim exE conjE) (erule that; assumption)
  from a2 sample_decoder_type(2) [of ?c2]
  have pre: "algorithm (quantization_config (sample_quantizer ?c2)) = Some ''w4a8_awq'' \<and>
          get_decoder_type (sample_quantizer ?c2) (mconfig (get_unwrapped_mcore_model ?m))
            = Inr (''llama'', [])"
    by (intro conjI)
  from second [rule_format, OF pre]
  obtain model_b' table2 events2 recipe2 where
    q2: "quantize (sample_quantizer ?c2) table' 0 ?m = Inr (model_b', table2, events2)" and
    m2: "MtqQuantize recipe2 \<in> set events2" and
    e2: "table2 ''w4a8_awq'' = Some recipe2" and
    a2': "assigned_in_place ''w4a8_awq'' (quantization_config (sample_quantizer ?c2))
            ''llama'' recipe recipe2" and
    s2: "recipe_shape_ok ''w4a8_awq'' recipe2"
    by (elim exE conjE) (erule that; assumption)
  from a have a': "assigned_in_place ''w4a8_awq'' ?c1 ''llama'' (W4A8_AWQ_BETA_CFG sample_mtq) recipe"
    unfolding c .
  from a2' have a2'': "assigned_in_place ''w4a8_awq'' ?c2 ''llama'' recipe recipe2"
    unfolding c .
  have tg: "py_getitem (W4A8_AWQ_BETA_CFG sample_mtq) (KStr ''algorithm'') = Inr (VStr ''awq_lite'')"
    by (simp add: sample_mtq_def)
  from a' have "if ''w4a8_awq'' = ''int8_sq''
          then py_getitem recipe (KStr ''algorithm'')
                 = Inr (VDict [(KStr ''method'', VStr ''smoothquant''),
                               (KStr ''alpha'', VFloat (sq_alpha ?c1))])
          else py_getitem recipe (KStr ''algorithm'')
                 = py_getitem (W4A8_AWQ_BETA_CFG sample_mtq) (KStr ''algorithm'')"
    unfolding assigned_in_place_def by (elim conjE)
  with tg have g: "py_getitem recipe (KStr ''algorithm'') = Inr (VStr ''awq_lite'')"
    by simp
  show ?thesis
    by (intro exI conjI)
       (rule q, rule m, rule e, rule o, rule a', rule s, rule g,
        rule q2, rule m2, rule e2, rule a2'', rule s2)
qed

text \<open>
  C2 as stated fails: after one call with the default configuration the entry for "fp8"
  holds the output quantizer that the template did not have.
\<close>

theorem quantize_template_counterexample:
  "entry_after_quantize (sample_quantizer default_QuantizationConfig)
      (QUANT_CFG_CHOICES sample_mtq) 0 (sample_model [LlamaConfig]) ''fp8''
     = Some (VDict
         [(KStr ''quant_cfg'',
           VDict [(KStr ''*weight_quantizer'',
                     VDict [(KStr ''num_bits'', VTuple [VInt 4, VInt 3]), (KStr ''axis'', VNone)]),
                  (KStr ''*input_quantizer'',
                     VDict [(KStr ''num_bits'', VTuple [VInt 4, VInt 3]), (KStr ''axis'', VNone)]),
                  (KStr ''*lm_head*'', VDict [(KStr ''enable'', VBool False)]),
                  (KStr ''default'', VDict [(KStr ''enable'', VBool False)]),
                  (KStr ''*output_quantizer'',
                     VDict [(KStr ''num_bits'', VTuple [VInt 4, VInt 3]), (KStr ''axis'', VNone),
                            (KStr ''enable'', VBool True)])]),
          (KStr ''algorithm'', VStr ''max'')])
   \<and> QUANT_CFG_CHOICES sample_mtq ''fp8''
     = Some (VDict
         [(KStr ''quant_cfg'',
           VDict [(KStr ''*weight_quantizer'',
                     VDict [(KStr ''num_bits'', VTuple [VInt 4, VInt 3]), (KStr ''axis'', VNone)]),
                  (KStr ''*input_quantizer'',
                     VDict [(KStr ''num_bits'', VTuple [VInt 4, VInt 3]), (KStr ''axis'', VNone)]),
                  (KStr ''*lm_head*'', VDict [(KStr ''enable'', VBool False)]),
                  (KStr ''default'', VDict [(KStr ''enable'', VBool False)])]),
          (KStr ''algorithm'', VStr ''max'')])
   \<and> entry_after_quantize (sample_quantizer default_QuantizationConfig)
      (QUANT_CFG_CHOICES sample_mtq) 0 (sample_model [LlamaConfig]) ''fp8''
     \<noteq> QUANT_CFG_CHOICES sample_mtq ''fp8''"
  by (simp add: entry_after_quantize_def quantize_def build_recipe_def Let_def
        sample_quantizer_def default_QuantizationConfig_def sample_export_config_def
        sample_model_def sample_config_def setup_model_def get_unwrapped_mcore_model_def
        get_decoder_type_def get_modelopt_decoder_type_def mapping_def isinstance_def
        QUANT_CFG_CHOICES_def sample_mtq_def disabled_quantizer_cfg_def
        set_output_quantizer_def output_quantizer_def kv_cache_enabled_def)

section \<open>Properties of export\<close>

lemma get_decoder_type_Some:
  assumes "export_config self = Some ec"
  shows "\<exists>dec warnings. get_decoder_type self cfg = Inr (dec, warnings)
           \<and> (warnings = [] \<or> warnings = [LogWarning ''Could not directly infer the decoder type''])"
  using assms
  by (auto simp: get_decoder_type_def get_modelopt_decoder_type_def split: option.splits)

lemma copy_tokenizer_events:
  "\<forall>e \<in> set (copy_tokenizer ex dir c). \<not> is_export_call e \<and> e \<noteq> Barrier"
  by (cases c) (simp_all add: copy_tokenizer_def)

lemma copy_tokenizer_known:
  "\<exists>e \<in> set (copy_tokenizer ex dir c). is_copy e \<Longrightarrow> c \<noteq> None"
  by (cases c) (simp_all add: copy_tokenizer_def)

lemma copy_tokenizer_copies:
  "ex (tokenizer_src p) \<and> \<not> ex (tokenizer_dst dir) \<Longrightarrow>
   copy_tokenizer ex dir (Some p) = [CopyTree (tokenizer_src p) (tokenizer_dst dir)]"
  by (simp add: copy_tokenizer_def)

lemma copy_tokenizer_skips:
  "\<not> ex (tokenizer_src p) \<or> ex (tokenizer_dst dir) \<Longrightarrow>
   copy_tokenizer ex dir (Some p) = [LogInfo ''Could not copy tokenizer from the NeMo checkpoint'']"
  by (auto simp: copy_tokenizer_def)

lemma export_model_Some:
  assumes "export_config self = Some ec"
    and "get_decoder_type self (config model) = Inr (dec, warnings)"
  shows "export_model self rank exists model checkpoint_arg =
     Inr (if rank = 0
          then self\<lparr>nemo_checkpoint_path := path_or checkpoint_arg (nemo_checkpoint_path self)\<rparr>
          else self,
          warnings
          @ [ExportCheckpoint dec (torch_dtype self) (path ec)
               (inference_tensor_parallel ec) (inference_pipeline_parallel ec)
               (num_nodes model > 1 \<or> pipeline_model_parallel_size (config model) > 1),
             Barrier]
          @ (LogInfo (''Export succeeded, model has been exported to '' @ path ec
                      @ ''. Saving tokenizer if possible...'')
             # (if rank = 0
                then copy_tokenizer exists (path ec)
                       (path_or checkpoint_arg (nemo_checkpoint_path self))
                else [])))"
  using assms by (simp add: export_model_def Let_def)

text \<open>
  C5. With an export configuration, \<^verbatim>\<open>export\<close> returns without error and its events are:
  the export toolkit call, directly followed by the barrier, with no tokenizer copy before
  them. A copy can only follow the barrier, and only on rank 0 with a known checkpoint path
  (the argument, or else the path stored earlier). It happens when the source tokenizer
  directory exists and the destination does not; otherwise it is skipped and the last event
  is the log message.
\<close>

theorem export_ordering:
  assumes "export_config self = Some ec"
  shows "\<exists>self' before call after.
      export_model self rank exists model checkpoint_arg
        = Inr (self', before @ [call, Barrier] @ after)
      \<and> is_export_call call
      \<and> (\<forall>e \<in> set before. \<not> is_copy e \<and> \<not> is_export_call e \<and> e \<noteq> Barrier)
      \<and> (\<forall>e \<in> set after. \<not> is_export_call e \<and> e \<noteq> Barrier)
      \<and> ((\<exists>e \<in> set after. is_copy e) \<longrightarrow>
            rank = 0 \<and> path_or checkpoint_arg (nemo_checkpoint_path self) \<noteq> None)
      \<and> (rank = 0 \<and> path_or checkpoint_arg (nemo_checkpoint_path self) = Some p \<and>
           exists (tokenizer_src p) \<and> \<not> exists (tokenizer_dst (path ec)) \<longrightarrow>
            filter is_copy after = [CopyTree (tokenizer_src p) (tokenizer_dst (path ec))])
      \<and> (rank = 0 \<and> path_or checkpoint_arg (nemo_checkpoint_path self) = Some p \<and>
           (\<not> exists (tokenizer_src p) \<or> exists (tokenizer_dst (path ec))) \<longrightarrow>
            filter is_copy after = [] \<and>
            last after = LogInfo ''Could not copy tokenizer from the NeMo checkpoint'')"
proof -
  from get_decoder_type_Some [OF assms, of "config model"] obtain dec warnings where
    g: "get_decoder_type self (config model) = Inr (dec, warnings)" and
    w: "warnings = [] \<or> warnings = [LogWarning ''Could not directly infer the decoder type'']"
    by blast
  let ?call = "ExportCheckpoint dec (torch_dtype self) (path ec)
               (inference_tensor_parallel ec) (inference_pipeline_parallel ec)
               (num_nodes model > 1 \<or> pipeline_model_parallel_size (config model) > 1)"
  let ?known = "path_or checkpoint_arg (nemo_checkpoint_path self)"
  let ?after = "LogInfo (''Export succeeded, model has been exported to '' @ path ec
                      @ ''. Saving tokenizer if possible...'')
             # (if rank = 0 then copy_tokenizer exists (path ec) ?known else [])"
  have c: "is_export_call ?call" by simp
  from w have b: "\<forall>e \<in> set warnings. \<not> is_copy e \<and> \<not> is_export_call e \<and> e \<noteq> Barrier"
    by auto
  have a1: "\<forall>e \<in> set ?after. \<not> is_export_call e \<and> e \<noteq> Barrier"
    using copy_tokenizer_events [of exists "path ec" ?known] by simp
  have a2: "(\<exists>e \<in> set ?after. is_copy e) \<longrightarrow> rank = 0 \<and> ?known \<noteq> None"
    using copy_tokenizer_known [of exists "path ec" ?known] by (cases "rank = 0") auto
  have a3: "rank = 0 \<and> ?known = Some p \<and>
           exists (tokenizer_src p) \<and> \<not> exists (tokenizer_dst (path ec)) \<longrightarrow>
            filter is_copy ?after = [CopyTree (tokenizer_src p) (tokenizer_dst (path ec))]"
    using copy_tokenizer_copies [of exists p "path ec"] by auto
  have a4: "rank = 0 \<and> ?known = Some p \<and>
           (\<not> exists (tokenizer_src p) \<or> exists (tokenizer_dst (path ec))) \<longrightarrow>
            filter is_copy ?after = [] \<and>
            last ?after = LogInfo ''Could not copy tokenizer from the NeMo checkpoint''"
    using copy_tokenizer_skips [of exists p "path ec"] by auto
  show ?thesis
    by (intro exI conjI)
       (rule export_model_Some [OF assms g], rule c, rule b, rule a1, rule a2, rule a3, rule a4)
qed

theorem export_ordering_witness:
  "(\<exists>self' before call after.
      export_model (sample_quantizer default_QuantizationConfig) 0
          (\<lambda>p. p = ''/ckpt/context/nemo_tokenizer'') (sample_model [LlamaConfig]) (Some ''/ckpt'')
        = Inr (self', before @ [call, Barrier] @ after)
      \<and> is_export_call call
      \<and> (\<forall>e \<in> set before. \<not> is_copy e \<and> \<not> is_export_call e \<and> e \<noteq> Barrier)
      \<and> (\<forall>e \<in> set after. \<not> is_export_call e \<and> e \<noteq> Barrier)
      \<and> filter is_copy after = [CopyTree ''/ckpt/context/nemo_tokenizer'' ''/out/tokenizer''])
   \<and> (\<exists>self' before call after.
      export_model (sample_quantizer default_QuantizationConfig) 0
          (\<lambda>p. True) (sample_model [LlamaConfig]) (Some ''/ckpt'')
        = Inr (self', before @ [call, Barrier] @ after)
      \<and> is_export_call call
      \<and> (\<forall>e \<in> set before. \<not> is_copy e \<and> \<not> is_export_call e \<and> e \<noteq> Barrier)
      \<and> (\<forall>e \<in> set after. \<not> is_export_call e \<and> e \<noteq> Barrier)
      \<and> filter is_copy after = []
      \<and> last after = LogInfo ''Could not copy tokenizer from the NeMo checkpoint'')"
proof -
  let ?q = "sample_quantizer default_QuantizationConfig"
  let ?m = "sample_model [LlamaConfig]"
  let ?only = "\<lambda>p::string. p = ''/ckpt/context/nemo_tokenizer''"
  let ?all = "\<lambda>p::string. True"
  have e: "export_config ?q = Some sample_export_config"
    by (simp add: sample_quantizer_def)
  have k: "path_or (Some ''/ckpt'') (nemo_checkpoint_path ?q) = Some ''/ckpt''"
    by (simp add: path_or_def)
  have src: "tokenizer_src ''/ckpt'' = ''/ckpt/context/nemo_tokenizer''"
    by (simp add: tokenizer_src_def os_path_join_def)
  have dst: "tokenizer_dst (path sample_export_config) = ''/out/tokenizer''"
    by (simp add: tokenizer_dst_def os_path_join_def sample_export_config_def)
  from export_ordering [OF e, of 0 ?only ?m "Some ''/ckpt''" "''/ckpt''"]
  obtain s1 b1 c1 a1 where
    r1: "export_model ?q 0 ?only ?m (Some ''/ckpt'') = Inr (s1, b1 @ [c1, Barrier] @ a1)" and
    c1: "is_export_call c1" and
    b1: "\<forall>e \<in> set b1. \<not> is_copy e \<and> \<not> is_export_call e \<and> e \<noteq> Barrier" and
    a1: "\<forall>e \<in> set a1. \<not> is_export_call e \<and> e \<noteq> Barrier" and
    copy: "(0::int) = 0 \<and> path_or (Some ''/ckpt'') (nemo_checkpoint_path ?q) = Some ''/ckpt'' \<and>
           ?only (tokenizer_src ''/ckpt'') \<and> \<not> ?only (tokenizer_dst (path sample_export_config)) \<longrightarrow>
            filter is_copy a1 = [CopyTree (tokenizer_src ''/ckpt'')
                                   (tokenizer_dst (path sample_export_config))]"
    by blast
  from copy k src dst
  have f1: "filter is_copy a1 = [CopyTree ''/ckpt/context/nemo_tokenizer'' ''/out/tokenizer'']"
    by simp
  from export_ordering [OF e, of 0 ?all ?m "Some ''/ckpt''" "''/ckpt''"]
  obtain s2 b2 c2 a2 where
    r2: "export_model ?q 0 ?all ?m (Some ''/ckpt'') = Inr (s2, b2 @ [c2, Barrier] @ a2)" and
    c2: "is_export_call c2" and
    b2: "\<forall>e \<in> set b2. \<not> is_copy e \<and> \<not> is_export_call e \<and> e \<noteq> Barrier" and
    a2: "\<forall>e \<in> set a2. \<not> is_export_call e \<and> e \<noteq> Barrier" and
    skip: "(0::int) = 0 \<and> path_or (Some ''/ckpt'') (nemo_checkpoint_path ?q) = Some ''/ckpt'' \<and>
           (\<not> ?all (tokenizer_src ''/ckpt'') \<or> ?all (tokenizer_dst (path sample_export_config))) \<longrightarrow>
            filter is_copy a2 = [] \<and>
            last a2 = LogInfo ''Could not copy tokenizer from the NeMo checkpoint''"
    by blast
  from skip k
  have f2: "filter is_copy a2 = []"
    and l2: "last a2 = LogInfo ''Could not copy tokenizer from the NeMo checkpoint''"
    by simp_all
  have 1: "\<exists>self' before call after.
      export_model ?q 0 ?only ?m (Some ''/ckpt'') = Inr (self', before @ [call, Barrier] @ after)
      \<and> is_export_call call
      \<and> (\<forall>e \<in> set before. \<not> is_copy e \<and> \<not> is_export_call e \<and> e \<noteq> Barrier)
      \<and> (\<forall>e \<in> set after. \<not> is_export_call e \<and> e \<noteq> Barrier)
      \<and> filter is_copy after = [CopyTree ''/ckpt/context/nemo_tokenizer'' ''/out/tokenizer'']"
    by (intro exI conjI) (rule r1, rule c1, rule b1, rule a1, rule f1)
  have 2: "\<exists>self' before call after.
      export_model ?q 0 ?all ?m (Some ''/ckpt'') = Inr (self', before @ [call, Barrier] @ after)
      \<and> is_export_call call
      \<and> (\<forall>e \<in> set before. \<not> is_copy e \<and> \<not> is_export_call e \<and> e \<noteq> Barrier)
      \<and> (\<forall>e \<in> set after. \<not> is_export_call e \<and> e \<noteq> Barrier)
      \<and> filter is_copy after = []
      \<and> last after = LogInfo ''Could not copy tokenizer from the NeMo checkpoint''"
    by (intro exI conjI) (rule r2, rule c2, rule b2, rule a2, rule f2, rule l2)
  from 1 2 show ?thesis by blast
qed

section \<open>Properties of the Falcon layer specification\<close>

text \<open>
  C10. Without megatron-core \<^verbatim>\<open>get_falcon_layer_spec\<close> raises an \<open>ImportError\<close>.
  Otherwise it returns a \<open>ModuleSpec\<close> whose module is \<open>FalconTransformerLayer\<close>; its
  self-attention has the causal mask type, the linear layers \<open>TEColumnParallelLinear\<close>
  and \<open>TERowParallelLinear\<close>, the core attention \<open>TEDotProductAttention\<close> and identity
  layer norms for q and k; its submodules carry \<open>post_self_attn_layernorm\<close>, set to
  \<open>TENorm\<close> after the constructor call, which does not set it.
\<close>

theorem falcon_layer_spec:
  "(\<not> have_megatron_core \<longrightarrow>
      (\<exists>msg. get_falcon_layer_spec have_megatron_core = Inl (ImportError msg)))
   \<and> (have_megatron_core \<longrightarrow>
      (\<exists>spec attrs.
         get_falcon_layer_spec have_megatron_core = Inr spec
         \<and> spec = Instance ''ModuleSpec'' attrs
         \<and> getattr spec ''module'' = Some (Name ''FalconTransformerLayer'')
         \<and> getattr_path spec [''submodules'', ''self_attention'', ''params'', ''attn_mask_type'']
             = Some (EnumMember ''AttnMaskType'' ''causal'')
         \<and> getattr_path spec [''submodules'', ''self_attention'', ''submodules'', ''linear_qkv'']
             = Some (Name ''TEColumnParallelLinear'')
         \<and> getattr_path spec [''submodules'', ''self_attention'', ''submodules'', ''core_attention'']
             = Some (Name ''TEDotProductAttention'')
         \<and> getattr_path spec [''submodules'', ''self_attention'', ''submodules'', ''linear_proj'']
             = Some (Name ''TERowParallelLinear'')
         \<and> getattr_path spec [''submodules'', ''self_attention'', ''submodules'', ''q_layernorm'']
             = Some (Name ''IdentityOp'')
         \<and> getattr_path spec [''submodules'', ''self_attention'', ''submodules'', ''k_layernorm'']
             = Some (Name ''IdentityOp'')
         \<and> getattr_path spec [''submodules'', ''post_self_attn_layernorm''] = Some (Name ''TENorm'')
         \<and> getattr falcon_submodules ''post_self_attn_layernorm'' = None
         \<and> getattr_path spec [''submodules'']
             = Some (setattr falcon_submodules ''post_self_attn_layernorm'' (Name ''TENorm''))))"
  by (simp add: get_falcon_layer_spec_def falcon_submodules_def)

theorem falcon_layer_spec_witness:
  "(\<exists>msg. get_falcon_layer_spec False = Inl (ImportError msg))
   \<and> (\<exists>spec attrs.
         get_falcon_layer_spec True = Inr spec
         \<and> spec = Instance ''ModuleSpec'' attrs
         \<and> getattr spec ''module'' = Some (Name ''FalconTransformerLayer'')
         \<and> getattr_path spec [''submodules'', ''self_attention'', ''params'', ''attn_mask_type'']
             = Some (EnumMember ''AttnMaskType'' ''causal'')
         \<and> getattr_path spec [''submodules'', ''post_self_attn_layernorm''] = Some (Name ''TENorm''))"
proof -
  from falcon_layer_spec [of False]
  have 1: "\<exists>msg. get_falcon_layer_spec False = Inl (ImportError msg)" by simp
  from falcon_layer_spec [of True] obtain spec attrs where
    "get_falcon_layer_spec True = Inr spec"
    "spec = Instance ''ModuleSpec'' attrs"
    "getattr spec ''module'' = Some (Name ''FalconTransformerLayer'')"
    "getattr_path spec [''submodules'', ''self_attention'', ''params'', ''attn_mask_type'']
             = Some (EnumMember ''AttnMaskType'' ''causal'')"
    "getattr_path spec [''submodules'', ''post_self_attn_layernorm''] = Some (Name ''TENorm'')"
    by auto
  with 1 show ?thesis by blast
qed

end
